theory Spec2Isabelle
  imports Complex_Main
begin

section \<open>Floating-point values\<close>

text \<open>
  The tensors of \<^verbatim>\<open>proximal_hessian.py\<close> hold IEEE floating-point numbers. The source
  itself distinguishes finite from non-finite entries (\<^verbatim>\<open>tf.is_finite\<close>) and writes
  \<^verbatim>\<open>np.inf\<close> into its masks, so the model keeps the special values: a value is a finite
  real, plus or minus infinity, or NaN. Arithmetic on finite values is exact: rounding,
  overflow to infinity, subnormals and the sign of zero are not modelled (a zero divisor is
  read as \<open>+0\<close>). On special values the operations follow IEEE 754; comparisons with NaN
  are false.
\<close>

datatype fp = Finite real | PosInf | NegInf | NaN

fun fp_is_finite :: "fp \<Rightarrow> bool" where
  "fp_is_finite (Finite r) = True"
| "fp_is_finite PosInf = False"
| "fp_is_finite NegInf = False"
| "fp_is_finite NaN = False"

fun fp_neg :: "fp \<Rightarrow> fp" where
  "fp_neg (Finite r) = Finite (- r)"
| "fp_neg PosInf = NegInf"
| "fp_neg NegInf = PosInf"
| "fp_neg NaN = NaN"

fun fp_add :: "fp \<Rightarrow> fp \<Rightarrow> fp" where
  "fp_add (Finite a) (Finite b) = Finite (a + b)"
| "fp_add (Finite a) PosInf = PosInf"
| "fp_add (Finite a) NegInf = NegInf"
| "fp_add (Finite a) NaN = NaN"
| "fp_add PosInf (Finite b) = PosInf"
| "fp_add PosInf PosInf = PosInf"
| "fp_add PosInf NegInf = NaN"
| "fp_add PosInf NaN = NaN"
| "fp_add NegInf (Finite b) = NegInf"
| "fp_add NegInf PosInf = NaN"
| "fp_add NegInf NegInf = NegInf"
| "fp_add NegInf NaN = NaN"
| "fp_add NaN y = NaN"

definition fp_sub :: "fp \<Rightarrow> fp \<Rightarrow> fp" where
  "fp_sub x y = fp_add x (fp_neg y)"

text \<open>The sign of a product with an infinite factor; zero times infinity is NaN.\<close>

definition inf_times :: "bool \<Rightarrow> real \<Rightarrow> fp" where
  "inf_times pos r =
     (if r = 0 then NaN else if (0 < r) = pos then PosInf else NegInf)"

fun fp_mul :: "fp \<Rightarrow> fp \<Rightarrow> fp" where
  "fp_mul (Finite a) (Finite b) = Finite (a * b)"
| "fp_mul (Finite a) PosInf = inf_times True a"
| "fp_mul (Finite a) NegInf = inf_times False a"
| "fp_mul (Finite a) NaN = NaN"
| "fp_mul PosInf (Finite b) = inf_times True b"
| "fp_mul PosInf PosInf = PosInf"
| "fp_mul PosInf NegInf = NegInf"
| "fp_mul PosInf NaN = NaN"
| "fp_mul NegInf (Finite b) = inf_times False b"
| "fp_mul NegInf PosInf = NegInf"
| "fp_mul NegInf NegInf = PosInf"
| "fp_mul NegInf NaN = NaN"
| "fp_mul NaN y = NaN"

fun fp_div :: "fp \<Rightarrow> fp \<Rightarrow> fp" where
  "fp_div (Finite a) (Finite b) =
     (if b = 0 then (if a = 0 then NaN else if 0 < a then PosInf else NegInf)
      else Finite (a / b))"
| "fp_div (Finite a) PosInf = Finite 0"
| "fp_div (Finite a) NegInf = Finite 0"
| "fp_div (Finite a) NaN = NaN"
| "fp_div PosInf (Finite b) = (if 0 \<le> b then PosInf else NegInf)"
| "fp_div PosInf PosInf = NaN"
| "fp_div PosInf NegInf = NaN"
| "fp_div PosInf NaN = NaN"
| "fp_div NegInf (Finite b) = (if 0 \<le> b then NegInf else PosInf)"
| "fp_div NegInf PosInf = NaN"
| "fp_div NegInf NegInf = NaN"
| "fp_div NegInf NaN = NaN"
| "fp_div NaN y = NaN"

text \<open>\<^verbatim>\<open>tf.less\<close>, \<^verbatim>\<open>tf.greater\<close>, \<^verbatim>\<open>tf.less_equal\<close>, \<^verbatim>\<open>tf.equal\<close> and
  \<^verbatim>\<open>tf.not_equal\<close>: every ordered comparison with NaN is false, and NaN is not
  equal to anything.\<close>

fun fp_lt :: "fp \<Rightarrow> fp \<Rightarrow> bool" where
  "fp_lt (Finite a) (Finite b) = (a < b)"
| "fp_lt (Finite a) PosInf = True"
| "fp_lt (Finite a) NegInf = False"
| "fp_lt (Finite a) NaN = False"
| "fp_lt PosInf y = False"
| "fp_lt NegInf (Finite b) = True"
| "fp_lt NegInf PosInf = True"
| "fp_lt NegInf NegInf = False"
| "fp_lt NegInf NaN = False"
| "fp_lt NaN y = False"

definition fp_gt :: "fp \<Rightarrow> fp \<Rightarrow> bool" where
  "fp_gt x y = fp_lt y x"

fun fp_eq :: "fp \<Rightarrow> fp \<Rightarrow> bool" where
  "fp_eq (Finite a) (Finite b) = (a = b)"
| "fp_eq (Finite a) PosInf = False"
| "fp_eq (Finite a) NegInf = False"
| "fp_eq (Finite a) NaN = False"
| "fp_eq PosInf (Finite b) = False"
| "fp_eq PosInf PosInf = True"
| "fp_eq PosInf NegInf = False"
| "fp_eq PosInf NaN = False"
| "fp_eq NegInf (Finite b) = False"
| "fp_eq NegInf PosInf = False"
| "fp_eq NegInf NegInf = True"
| "fp_eq NegInf NaN = False"
| "fp_eq NaN y = False"

definition fp_not_equal :: "fp \<Rightarrow> fp \<Rightarrow> bool" where
  "fp_not_equal x y = (\<not> fp_eq x y)"

definition fp_le :: "fp \<Rightarrow> fp \<Rightarrow> bool" where
  "fp_le x y = (fp_lt x y \<or> fp_eq x y)"

text \<open>\<^verbatim>\<open>tf.sign\<close>: \<open>-1\<close>, \<open>0\<close> or \<open>1\<close>, and \<open>0\<close> for NaN, as the operation's
  documentation has it.\<close>

fun fp_sign :: "fp \<Rightarrow> fp" where
  "fp_sign (Finite r) = Finite (sgn r)"
| "fp_sign PosInf = Finite 1"
| "fp_sign NegInf = Finite (- 1)"
| "fp_sign NaN = Finite 0"

fun fp_abs :: "fp \<Rightarrow> fp" where
  "fp_abs (Finite r) = Finite \<bar>r\<bar>"
| "fp_abs PosInf = PosInf"
| "fp_abs NegInf = PosInf"
| "fp_abs NaN = NaN"

text \<open>\<^verbatim>\<open>tf.maximum(x, y)\<close> is documented as \<^verbatim>\<open>x > y ? x : y\<close>.\<close>

definition fp_maximum :: "fp \<Rightarrow> fp \<Rightarrow> fp" where
  "fp_maximum x y = (if fp_gt x y then x else y)"

fun fp_sqrt :: "fp \<Rightarrow> fp" where
  "fp_sqrt (Finite r) = (if r < 0 then NaN else Finite (sqrt r))"
| "fp_sqrt PosInf = PosInf"
| "fp_sqrt NegInf = NaN"
| "fp_sqrt NaN = NaN"

text \<open>\<^verbatim>\<open>x ** 2.\<close>\<close>

definition fp_square :: "fp \<Rightarrow> fp" where
  "fp_square x = fp_mul x x"

section \<open>The soft-thresholding operator\<close>

text \<open>
  \<^verbatim>\<open>return tf.sign(x) * tf.maximum(tf.abs(x) - threshold, 0.)\<close> on one entry, and
  elementwise on a tensor with a scalar threshold.
\<close>

definition soft_threshold :: "fp \<Rightarrow> fp \<Rightarrow> fp" where
  "soft_threshold x threshold =
     fp_mul (fp_sign x) (fp_maximum (fp_sub (fp_abs x) threshold) (Finite 0))"

definition soft_threshold_tensor :: "fp list \<Rightarrow> fp \<Rightarrow> fp list" where
  "soft_threshold_tensor xs threshold = map (\<lambda>x. soft_threshold x threshold) xs"

section \<open>Errors and tensors\<close>

text \<open>
  Every failure of the source is a value: \<open>InvalidArgument\<close> for an operation applied to
  tensors of incompatible shapes, an index out of range or an integer division by zero,
  \<open>TypeError\<close> for Python arithmetic on \<^verbatim>\<open>None\<close>, \<open>ValueError\<close> for \<^verbatim>\<open>None\<close> where a
  tensor is expected.
\<close>

datatype error = InvalidArgument | TypeError | ValueError

definition and_then :: "error + 'a \<Rightarrow> ('a \<Rightarrow> error + 'b) \<Rightarrow> error + 'b" where
  "and_then m f = (case m of Inl e \<Rightarrow> Inl e | Inr x \<Rightarrow> f x)"

text \<open>
  A vector-shaped tensor is a list. A binary elementwise operation broadcasts: two vectors
  of the same length are combined entry by entry, a vector of length one is combined with
  every entry of the other, and any other pair of lengths is an error.
\<close>

definition elementwise :: "('a \<Rightarrow> 'b \<Rightarrow> 'c) \<Rightarrow> 'a list \<Rightarrow> 'b list \<Rightarrow> error + 'c list" where
  "elementwise f xs ys =
     (if length xs = length ys then Inr (map2 f xs ys)
      else if length xs = 1 then Inr (map (f (hd xs)) ys)
      else if length ys = 1 then Inr (map (\<lambda>x. f x (hd ys)) xs)
      else Inl InvalidArgument)"

text \<open>\<^verbatim>\<open>t[i]\<close> for a vector \<open>t\<close> and an index tensor \<open>i\<close>.\<close>

definition tensor_index :: "'a list \<Rightarrow> int \<Rightarrow> error + 'a" where
  "tensor_index xs i =
     (if 0 \<le> i \<and> i < int (length xs) then Inr (xs ! nat i) else Inl InvalidArgument)"

text \<open>\<^verbatim>\<open>tf.scatter_update(var, [i], [v])\<close>: the variable's new value.\<close>

definition scatter_update :: "'a list \<Rightarrow> int \<Rightarrow> 'a \<Rightarrow> error + 'a list" where
  "scatter_update var i v =
     (if 0 \<le> i \<and> i < int (length var) then Inr (var[nat i := v]) else Inl InvalidArgument)"

text \<open>The integer \<^verbatim>\<open>%\<close> of tensors (floor modulus); a zero divisor is an error.\<close>

definition floormod :: "int \<Rightarrow> int \<Rightarrow> error + int" where
  "floormod a b = (if b = 0 then Inl InvalidArgument else Inr (a mod b))"

definition reduce_sum :: "fp list \<Rightarrow> fp" where
  "reduce_sum xs = foldl fp_add (Finite 0) xs"

text \<open>\<^verbatim>\<open>tf.norm(x, ord=2)\<close>\<close>

definition norm2 :: "fp list \<Rightarrow> fp" where
  "norm2 xs = fp_sqrt (reduce_sum (map fp_square xs))"

text \<open>
  A matrix-shaped tensor of shape \<open>[nrows, ncols]\<close>. Only the dense representation is
  modelled; the sparse branches of the \<^verbatim>\<open>_sparse_or_dense_...\<close> helpers compute the
  same values from a sparse encoding.
\<close>

record matrix =
  nrows :: nat
  ncols :: nat
  entry :: "nat \<Rightarrow> nat \<Rightarrow> fp"

text \<open>
  \<^verbatim>\<open>_sparse_or_dense_matvecmul(matrix, vector, adjoint_a=...)\<close>: the product of the
  matrix, or of its transpose when \<open>adjoint_a\<close> holds, with a vector. The contracted
  dimensions must agree.
\<close>

definition sparse_or_dense_matvecmul :: "matrix \<Rightarrow> fp list \<Rightarrow> bool \<Rightarrow> error + fp list" where
  "sparse_or_dense_matvecmul m v adjoint_a =
     (if adjoint_a then
        (if length v = nrows m
         then Inr (map (\<lambda>j. reduce_sum (map (\<lambda>i. fp_mul (entry m i j) (v ! i)) [0..<nrows m]))
                       [0..<ncols m])
         else Inl InvalidArgument)
      else
        (if length v = ncols m
         then Inr (map (\<lambda>i. reduce_sum (map (\<lambda>j. fp_mul (entry m i j) (v ! j)) [0..<ncols m]))
                       [0..<nrows m])
         else Inl InvalidArgument))"

text \<open>
  \<^verbatim>\<open>_sparse_or_dense_matmul_onehot(matrix, col_index, size)\<close>: column \<open>col_index\<close>, by
  \<^verbatim>\<open>tf.gather(..., axis=-1)\<close>; the argument \<^verbatim>\<open>size\<close> is used in the sparse case only.
\<close>

definition sparse_or_dense_matmul_onehot :: "matrix \<Rightarrow> int \<Rightarrow> nat \<Rightarrow> error + fp list" where
  "sparse_or_dense_matmul_onehot m col_index size' =
     (if 0 \<le> col_index \<and> col_index < int (ncols m)
      then Inr (map (\<lambda>i. entry m i (nat col_index)) [0..<nrows m])
      else Inl InvalidArgument)"

definition sparse_or_dense_inner_square :: "fp list \<Rightarrow> fp" where
  "sparse_or_dense_inner_square v = reduce_sum (map fp_square v)"

text \<open>\<^verbatim>\<open>_one_hot_like(x, indices, on_value)\<close>: a vector as long as \<open>x\<close>, \<open>on_value\<close> at
  \<open>indices\<close> and zero elsewhere (all zero when the index is out of range).\<close>

definition one_hot_like :: "fp list \<Rightarrow> int \<Rightarrow> fp \<Rightarrow> fp list" where
  "one_hot_like x indices on_value =
     map (\<lambda>k. if int k = indices then on_value else Finite 0) [0..<length x]"

text \<open>The helpers for optional operands.\<close>

definition reduce_ignoring_nones :: "('a \<Rightarrow> 'a \<Rightarrow> 'a) \<Rightarrow> 'a option list \<Rightarrow> 'a option" where
  "reduce_ignoring_nones fn args =
     foldl (\<lambda>result x. case x of None \<Rightarrow> result
                        | Some v \<Rightarrow> (case result of None \<Rightarrow> Some v | Some r \<Rightarrow> Some (fn r v)))
           None args"

definition reduce_exiting_on_none :: "('a \<Rightarrow> 'a \<Rightarrow> 'a) \<Rightarrow> 'a option list \<Rightarrow> 'a option" where
  "reduce_exiting_on_none fn args =
     (if list_ex (\<lambda>x. x = None) args then None else reduce_ignoring_nones fn args)"

definition add_ignoring_nones :: "fp option list \<Rightarrow> fp option" where
  "add_ignoring_nones args = reduce_ignoring_nones fp_add args"

definition mul_ignoring_nones :: "fp option list \<Rightarrow> fp option" where
  "mul_ignoring_nones args = reduce_ignoring_nones fp_mul args"

definition mul_or_none :: "fp option list \<Rightarrow> fp option" where
  "mul_or_none args = reduce_exiting_on_none fp_mul args"

text \<open>Python arithmetic on the result of such a helper fails on \<^verbatim>\<open>None\<close>.\<close>

definition not_none :: "'a option \<Rightarrow> error + 'a" where
  "not_none x = (case x of None \<Rightarrow> Inl TypeError | Some v \<Rightarrow> Inr v)"

section \<open>The likelihood gradient and Fisher information of a GLM\<close>

text \<open>
  The model is a collaborator: a function from the linear response to the triple
  (mean, variance, gradient of the mean).
\<close>

type_synonym glm = "fp list \<Rightarrow> fp list \<times> fp list \<times> fp list"

text \<open>
  \<^verbatim>\<open>is_valid = (tf.is_finite(grad_mean) & tf.not_equal(grad_mean, 0.) &
               tf.is_finite(variance) & (variance > 0.))\<close>
\<close>

definition is_valid_of :: "fp list \<Rightarrow> fp list \<Rightarrow> error + bool list" where
  "is_valid_of grad_mean variance =
     and_then (elementwise (\<and>) (map fp_is_finite grad_mean)
                                (map (\<lambda>g. fp_not_equal g (Finite 0)) grad_mean)) (\<lambda>a.
     and_then (elementwise (\<and>) a (map fp_is_finite variance)) (\<lambda>b.
     elementwise (\<and>) b (map (\<lambda>v. fp_gt v (Finite 0)) variance)))"

text \<open>\<^verbatim>\<open>_mask_if_invalid(x, mask)\<close>: \<^verbatim>\<open>tf.where(is_valid, x, <mask, in the shape of x>)\<close>,
  which wants the condition in the shape of \<open>x\<close>.\<close>

definition mask_if_invalid :: "bool list \<Rightarrow> fp list \<Rightarrow> fp \<Rightarrow> error + fp list" where
  "mask_if_invalid is_valid x mask_value =
     (if length is_valid = length x
      then Inr (map2 (\<lambda>b v. if b then v else mask_value) is_valid x)
      else Inl InvalidArgument)"

definition grad_neg_log_likelihood_and_fim ::
  "matrix \<Rightarrow> fp list \<Rightarrow> fp list \<Rightarrow> glm \<Rightarrow> error + (fp list \<times> fp list)" where
  "grad_neg_log_likelihood_and_fim model_matrix linear_response response model =
     (case model linear_response of (mean, variance, grad_mean) \<Rightarrow>
        and_then (is_valid_of grad_mean variance) (\<lambda>is_valid.
        and_then (elementwise fp_sub response mean) (\<lambda>residual.
        and_then (mask_if_invalid is_valid grad_mean (Finite 1)) (\<lambda>grad_mean_1.
        and_then (elementwise fp_mul residual grad_mean_1) (\<lambda>numerator.
        and_then (mask_if_invalid is_valid variance PosInf) (\<lambda>variance_inf.
        and_then (elementwise fp_div numerator variance_inf) (\<lambda>v.
        and_then (sparse_or_dense_matvecmul model_matrix v True) (\<lambda>grad_log_likelihood.
        and_then (mask_if_invalid is_valid grad_mean (Finite 0)) (\<lambda>grad_mean_0.
        and_then (mask_if_invalid is_valid variance PosInf) (\<lambda>variance_inf'.
        and_then (elementwise fp_div (map fp_square grad_mean_0) variance_inf') (\<lambda>fim_middle.
          Inr (map fp_neg grad_log_likelihood, fim_middle))))))))))))"

section \<open>One step of the outer loop: the coordinate-descent sweeps\<close>

text \<open>
  The arguments of \<^verbatim>\<open>minimize_sparse_one_step\<close>, \<^verbatim>\<open>x_update_var\<close> apart; those it
  shares with \<^verbatim>\<open>minimize_sparse\<close> come first. The integer tensors (\<^verbatim>\<open>int32\<close>) are
  unbounded integers: the loop counter never exceeds \<open>maximum_full_sweeps * dims\<close>, and
  a product beyond 32 bits is not modelled.
\<close>

record common_args =
  x_start :: "fp list"
  tolerance :: fp
  l1_regularizer :: fp
  l2_regularizer :: "fp option"
  learning_rate :: "fp option"

record one_step_args = common_args +
  gradient_unregularized_loss :: "fp list"
  hessian_unregularized_loss_outer :: matrix
  hessian_unregularized_loss_middle :: "fp list"
  maximum_full_sweeps :: int

text \<open>
  The loop variables of the \<^verbatim>\<open>tf.while_loop\<close>, together with the value held by the
  variable \<^verbatim>\<open>x_update_var\<close>, which the loop body reads and overwrites.
\<close>

record loop_vars =
  iter :: int
  x_update_diff_norm_sq :: fp
  x_update :: "fp list"
  hess_matmul_x_update :: "fp list"
  x_update_var :: "fp list"

definition dims :: "one_step_args \<Rightarrow> int" where
  "dims a = int (length (x_start a))"

definition num_samples :: "one_step_args \<Rightarrow> nat" where
  "num_samples a = nrows (hessian_unregularized_loss_outer a)"

text \<open>
  \<^verbatim>\<open>unregularized_component = (hessian_unregularized_loss_middle[coord] *
      _sparse_or_dense_inner_square(_sparse_or_dense_matmul_onehot(outer, coord, num_samples)))\<close>
\<close>

definition hessian_diag_elt_with_l2 :: "one_step_args \<Rightarrow> int \<Rightarrow> error + fp" where
  "hessian_diag_elt_with_l2 a coord =
     and_then (tensor_index (hessian_unregularized_loss_middle a) coord) (\<lambda>middle_elt.
     and_then (sparse_or_dense_matmul_onehot (hessian_unregularized_loss_outer a) coord
                 (num_samples a)) (\<lambda>column.
       let unregularized_component = fp_mul middle_elt (sparse_or_dense_inner_square column);
           l2_component = mul_or_none [Some (Finite 2), l2_regularizer a]
       in not_none (add_ignoring_nones [Some unregularized_component, l2_component])))"

text \<open>
  \<^verbatim>\<open>grad_loss_with_l2 = _add_ignoring_nones(gradient_unregularized_loss,
      _mul_or_none(2., l2_regularizer, x_start))\<close>
\<close>

definition grad_loss_with_l2_of :: "one_step_args \<Rightarrow> error + fp list" where
  "grad_loss_with_l2_of a =
     (case mul_or_none [Some (Finite 2), l2_regularizer a] of
        None \<Rightarrow> Inr (gradient_unregularized_loss a)
      | Some c \<Rightarrow> elementwise fp_add (gradient_unregularized_loss a)
                    (map (fp_mul c) (x_start a)))"

text \<open>\<^verbatim>\<open>tolerance * (1. + tf.norm(x_start, ord=2))**2.\<close>\<close>

definition x_update_diff_norm_sq_convergence_threshold :: "one_step_args \<Rightarrow> fp" where
  "x_update_diff_norm_sq_convergence_threshold a =
     fp_mul (tolerance a) (fp_square (fp_add (Finite 1) (norm2 (x_start a))))"

text \<open>\<^verbatim>\<open>_loop_cond\<close>; with no coordinates (\<open>dims = 0\<close>) the modulus fails.\<close>

definition loop_cond :: "one_step_args \<Rightarrow> loop_vars \<Rightarrow> error + bool" where
  "loop_cond a s =
     and_then (floormod (iter s) (dims a)) (\<lambda>r.
       let sweep_complete = (iter s > 0 \<and> r = 0);
           small_delta = fp_lt (x_update_diff_norm_sq s)
                               (x_update_diff_norm_sq_convergence_threshold a);
           converged = (sweep_complete \<and> small_delta);
           allowed_more_iterations = (iter s < maximum_full_sweeps a * dims a)
       in Inr (allowed_more_iterations \<and> \<not> converged))"

text \<open>The step \<open>delta\<close> of one coordinate, from the loop variables after the reset of the
  accumulator.\<close>

definition coord_delta :: "one_step_args \<Rightarrow> fp list \<Rightarrow> loop_vars \<Rightarrow> int \<Rightarrow> error + fp" where
  "coord_delta a grad_loss_with_l2 s coord =
     and_then (tensor_index (x_start a) coord) (\<lambda>x_start_elt.
     and_then (tensor_index (x_update s) coord) (\<lambda>x_update_elt.
     let w_old = fp_add x_start_elt x_update_elt in
     and_then (hessian_diag_elt_with_l2 a coord) (\<lambda>second_deriv.
     and_then (tensor_index grad_loss_with_l2 coord) (\<lambda>grad_elt.
     and_then (tensor_index (hess_matmul_x_update s) coord) (\<lambda>hess_elt.
     and_then (not_none (mul_ignoring_nones
                 [learning_rate a, Some (fp_add grad_elt hess_elt)])) (\<lambda>scaled.
     let newton_step = fp_div (fp_neg scaled) second_deriv in
     and_then (not_none (mul_ignoring_nones
                 [learning_rate a, Some (l1_regularizer a)])) (\<lambda>scaled_l1.
       Inr (fp_sub (soft_threshold (fp_add w_old newton_step)
                      (fp_div scaled_l1 second_deriv))
                   w_old))))))))"

text \<open>
  \<^verbatim>\<open>_do_update\<close>: column \<open>coord\<close> of the curvature matrix, by a column extraction and a
  product with the transposed outer factor, plus \<open>2 l2\<close> on entry \<open>coord\<close> when there is
  an \<open>l2\<close>. The source drops the loop variable \<open>x_update\<close>, adds \<open>delta\<close> to entry
  \<open>coord\<close> of the variable and returns the changed variable as the new \<open>x_update\<close>.
\<close>

definition do_update :: "one_step_args \<Rightarrow> loop_vars \<Rightarrow> int \<Rightarrow> fp \<Rightarrow> error + loop_vars" where
  "do_update a s coord delta =
     and_then (sparse_or_dense_matmul_onehot (hessian_unregularized_loss_outer a) coord
                 (num_samples a)) (\<lambda>column.
     and_then (elementwise fp_mul (hessian_unregularized_loss_middle a) column) (\<lambda>weighted.
     and_then (sparse_or_dense_matvecmul (hessian_unregularized_loss_outer a) weighted True)
       (\<lambda>hessian_column.
     and_then (case l2_regularizer a of
                 None \<Rightarrow> Inr hessian_column
               | Some l2 \<Rightarrow> elementwise fp_add hessian_column
                    (one_hot_like hessian_column coord (fp_mul (Finite 2) l2)))
       (\<lambda>hessian_column_with_l2.
     and_then (tensor_index (x_update_var s) coord) (\<lambda>var_elt.
     and_then (scatter_update (x_update_var s) coord (fp_add var_elt delta))
       (\<lambda>changed_x_update_var.
     and_then (elementwise fp_add (hess_matmul_x_update s)
                 (map (fp_mul delta) hessian_column_with_l2)) (\<lambda>hess_matmul_x_update'.
       Inr (s\<lparr>x_update_diff_norm_sq := fp_add (x_update_diff_norm_sq s) (fp_square delta),
              x_update := changed_x_update_var,
              hess_matmul_x_update := hess_matmul_x_update',
              x_update_var := changed_x_update_var\<rparr>))))))))"

text \<open>
  \<^verbatim>\<open>_loop_body\<close>: the accumulator is reset when \<open>coord = 0\<close>, then \<open>delta\<close> is computed,
  and \<^verbatim>\<open>smart_cond\<close> on \<^verbatim>\<open>tf.equal(delta, 0.)\<close> either returns the loop variables as
  they are or runs \<^verbatim>\<open>_do_update\<close>. The check \<^verbatim>\<open>tf.while_loop\<close> makes in graph mode
  that the loop variables keep their shapes is not modelled.
\<close>

definition loop_body :: "one_step_args \<Rightarrow> fp list \<Rightarrow> loop_vars \<Rightarrow> error + loop_vars" where
  "loop_body a grad_loss_with_l2 s =
     and_then (floormod (iter s) (dims a)) (\<lambda>coord.
     let s1 = s\<lparr>x_update_diff_norm_sq :=
                  (if coord = 0 then Finite 0 else x_update_diff_norm_sq s)\<rparr> in
     and_then (coord_delta a grad_loss_with_l2 s1 coord) (\<lambda>delta.
     and_then (if fp_eq delta (Finite 0) then Inr s1 else do_update a s1 coord delta)
       (\<lambda>s2. Inr (s2\<lparr>iter := iter s + 1\<rparr>))))"

text \<open>The \<^verbatim>\<open>tf.while_loop\<close> over \<^verbatim>\<open>_loop_cond\<close> and \<^verbatim>\<open>_loop_body\<close>.\<close>

function while_loop :: "one_step_args \<Rightarrow> fp list \<Rightarrow> loop_vars \<Rightarrow> error + loop_vars" where
  "while_loop a grad_loss_with_l2 s =
     (case loop_cond a s of
        Inl e \<Rightarrow> Inl e
      | Inr continue \<Rightarrow>
          if continue
          then (case loop_body a grad_loss_with_l2 s of
                  Inl e \<Rightarrow> Inl e
                | Inr s' \<Rightarrow> while_loop a grad_loss_with_l2 s')
          else Inr s)"
  by pat_completeness auto
termination
proof (relation "measure (\<lambda>(a, g, s). nat (maximum_full_sweeps a * dims a - iter s))")
  show "wf (measure (\<lambda>(a, g, s). nat (maximum_full_sweeps a * dims a - iter s)))"
    by simp
next
  fix a :: one_step_args and g :: "fp list" and s s' :: loop_vars and continue :: bool
  assume c: "loop_cond a s = Inr continue" and t: "continue"
    and b: "loop_body a g s = Inr s'"
  from c t have lt: "iter s < maximum_full_sweeps a * dims a"
    by (auto simp: loop_cond_def and_then_def Let_def split: sum.splits)
  from b have "iter s' = iter s + 1"
    by (auto simp: loop_body_def and_then_def Let_def split: sum.splits if_splits)
  with lt show "((a, g, s'), (a, g, s))
      \<in> measure (\<lambda>(a, g, s). nat (maximum_full_sweeps a * dims a - iter s))"
    by simp
qed

text \<open>
  \<^verbatim>\<open>minimize_sparse_one_step\<close>. Without an \<^verbatim>\<open>x_update_var\<close> a variable of \<open>dims\<close>
  zeros is created. The loop starts from the variable set to zero; the result is the
  returned triple and the value the variable is left with. The third component is
  \<^verbatim>\<open>iter_ / dims\<close> under \<^verbatim>\<open>from __future__ import division\<close>: the true quotient, a
  floating-point tensor.
\<close>

definition initial_loop_vars :: "fp list \<Rightarrow> loop_vars" where
  "initial_loop_vars var =
     \<lparr>iter = 0,
      x_update_diff_norm_sq = Finite 0,
      x_update = map (\<lambda>_. Finite 0) var,
      hess_matmul_x_update = map (\<lambda>_. Finite 0) var,
      x_update_var = map (\<lambda>_. Finite 0) var\<rparr>"

definition minimize_sparse_one_step ::
  "one_step_args \<Rightarrow> fp list option \<Rightarrow> error + ((fp list \<times> bool \<times> fp) \<times> fp list)" where
  "minimize_sparse_one_step a x_update_var_arg =
     (let var = (case x_update_var_arg of
                   None \<Rightarrow> replicate (nat (dims a)) (Finite 0)
                 | Some v \<Rightarrow> v) in
      and_then (grad_loss_with_l2_of a) (\<lambda>grad_loss_with_l2.
      and_then (while_loop a grad_loss_with_l2 (initial_loop_vars var)) (\<lambda>s.
      let converged = fp_lt (x_update_diff_norm_sq s)
                            (x_update_diff_norm_sq_convergence_threshold a) in
      and_then (elementwise fp_add (x_start a) (x_update s)) (\<lambda>x.
        Inr ((x, converged, fp_div (Finite (of_int (iter s))) (Finite (of_int (dims a)))),
             x_update_var s)))))"

section \<open>The outer loop\<close>

text \<open>
  The arguments of \<^verbatim>\<open>minimize_sparse\<close>, the callback and \<^verbatim>\<open>x_update_var\<close> apart.
  \<^verbatim>\<open>maximum_iterations\<close> may be \<^verbatim>\<open>None\<close> (the default of \<^verbatim>\<open>fit_sparse\<close>), on which
  the comparison in the loop condition fails.
\<close>

record minimize_args = common_args +
  maximum_iterations :: "int option"
  maximum_full_sweeps_per_iteration :: int

type_synonym grad_and_hessian_loss_fn = "fp list \<Rightarrow> error + (fp list \<times> matrix \<times> fp list)"

definition outer_loop_cond :: "minimize_args \<Rightarrow> bool \<Rightarrow> int \<Rightarrow> error + bool" where
  "outer_loop_cond m converged iter' =
     (case maximum_iterations m of
        None \<Rightarrow> Inl ValueError
      | Some mx \<Rightarrow> Inr (iter' < mx \<and> \<not> converged))"

definition outer_loop_body ::
  "grad_and_hessian_loss_fn \<Rightarrow> minimize_args \<Rightarrow> fp list \<Rightarrow> int \<Rightarrow> fp list
     \<Rightarrow> error + ((fp list \<times> bool \<times> int) \<times> fp list)" where
  "outer_loop_body fn m x iter' var =
     and_then (fn x) (\<lambda>(g, h_outer, h_middle).
     and_then (minimize_sparse_one_step
                 \<lparr>x_start = x,
                  tolerance = tolerance m,
                  l1_regularizer = l1_regularizer m,
                  l2_regularizer = l2_regularizer m,
                  learning_rate = learning_rate m,
                  gradient_unregularized_loss = g,
                  hessian_unregularized_loss_outer = h_outer,
                  hessian_unregularized_loss_middle = h_middle,
                  maximum_full_sweeps = maximum_full_sweeps_per_iteration m\<rparr>
                 (Some var)) (\<lambda>((x', converged', sweeps), var').
       Inr ((x', converged', iter' + 1), var')))"

function outer_while_loop ::
  "grad_and_hessian_loss_fn \<Rightarrow> minimize_args \<Rightarrow> fp list \<Rightarrow> bool \<Rightarrow> int \<Rightarrow> fp list
     \<Rightarrow> error + ((fp list \<times> bool \<times> int) \<times> fp list)" where
  "outer_while_loop fn m x converged iter' var =
     (case outer_loop_cond m converged iter' of
        Inl e \<Rightarrow> Inl e
      | Inr continue \<Rightarrow>
          if continue
          then (case outer_loop_body fn m x iter' var of
                  Inl e \<Rightarrow> Inl e
                | Inr ((x', converged', iter''), var') \<Rightarrow>
                    outer_while_loop fn m x' converged' iter'' var')
          else Inr ((x, converged, iter'), var))"
  by pat_completeness auto
termination
proof (relation "measure (\<lambda>(fn, m, x, converged, i, var).
                   case maximum_iterations m of None \<Rightarrow> 0 | Some mx \<Rightarrow> nat (mx - i))")
  show "wf (measure (\<lambda>(fn, m, x, converged, i, var).
                   case maximum_iterations m of None \<Rightarrow> 0 | Some mx \<Rightarrow> nat (mx - i)))"
    by simp
next
  fix fn :: grad_and_hessian_loss_fn and m :: minimize_args and x x' var var' :: "fp list"
    and converged converged' continue :: bool and i i' :: int
    and r :: "(fp list \<times> bool \<times> int) \<times> fp list" and t :: "fp list \<times> bool \<times> int"
    and u :: "bool \<times> int"
  assume c: "outer_loop_cond m converged i = Inr continue" and "continue"
    and b: "outer_loop_body fn m x i var = Inr r"
    and "(t, var') = r" and "(x', u) = t" and "(converged', i') = u"
  then have b': "outer_loop_body fn m x i var = Inr ((x', converged', i'), var')"
    by simp
  from c \<open>continue\<close> obtain mx where mx: "maximum_iterations m = Some mx" "i < mx"
    by (auto simp: outer_loop_cond_def split: option.splits)
  from b' have "i' = i + 1"
    by (auto simp: outer_loop_body_def and_then_def split: sum.splits prod.splits)
  with mx show "((fn, m, x', converged', i', var'), (fn, m, x, converged, i, var))
      \<in> measure (\<lambda>(fn, m, x, converged, i, var).
                   case maximum_iterations m of None \<Rightarrow> 0 | Some mx \<Rightarrow> nat (mx - i))"
    by simp
qed

text \<open>
  \<^verbatim>\<open>minimize_sparse\<close>: the loop from \<open>(x_start, False, 0)\<close>; without an
  \<^verbatim>\<open>x_update_var\<close> a variable of zeros, as long as \<open>x_start\<close>, is created and shared by
  all the steps.
\<close>

definition minimize_sparse ::
  "grad_and_hessian_loss_fn \<Rightarrow> minimize_args \<Rightarrow> fp list option
     \<Rightarrow> error + (fp list \<times> bool \<times> int)" where
  "minimize_sparse fn m x_update_var_arg =
     (let var = (case x_update_var_arg of
                   None \<Rightarrow> replicate (length (x_start m)) (Finite 0)
                 | Some v \<Rightarrow> v) in
      and_then (outer_while_loop fn m (x_start m) False 0 var) (\<lambda>(r, var'). Inr r))"

section \<open>Fitting a GLM\<close>

text \<open>\<^verbatim>\<open>_grad_neg_log_likelihood_and_fim_fn\<close>, the callback \<^verbatim>\<open>fit_sparse\<close> builds.\<close>

definition grad_neg_log_likelihood_and_fim_fn ::
  "matrix \<Rightarrow> fp list \<Rightarrow> glm \<Rightarrow> grad_and_hessian_loss_fn" where
  "grad_neg_log_likelihood_and_fim_fn model_matrix response model x =
     and_then (sparse_or_dense_matvecmul model_matrix x False) (\<lambda>predicted_linear_response.
     and_then (grad_neg_log_likelihood_and_fim model_matrix predicted_linear_response
                 response model) (\<lambda>(g, h_middle).
       Inr (g, model_matrix, h_middle)))"

text \<open>\<^verbatim>\<open>fit_sparse\<close>; \<open>x_start\<close> is its \<^verbatim>\<open>model_coefficients_start\<close>.\<close>

definition fit_sparse ::
  "matrix \<Rightarrow> fp list \<Rightarrow> glm \<Rightarrow> minimize_args \<Rightarrow> fp list option
     \<Rightarrow> error + (fp list \<times> bool \<times> int)" where
  "fit_sparse model_matrix response model m model_coefficients_update_var =
     minimize_sparse (grad_neg_log_likelihood_and_fim_fn model_matrix response model) m
       model_coefficients_update_var"

section \<open>The run of the coordinate loop\<close>

text \<open>
  The values the loop variables take before each evaluation of \<^verbatim>\<open>_loop_cond\<close>, in order:
  the first is the initial value, the last is the one the loop stops at (or the one at
  which an operation fails).
\<close>

function loop_states :: "one_step_args \<Rightarrow> fp list \<Rightarrow> loop_vars \<Rightarrow> loop_vars list" where
  "loop_states a grad_loss_with_l2 s =
     s # (case loop_cond a s of
            Inl e \<Rightarrow> []
          | Inr continue \<Rightarrow>
              if continue
              then (case loop_body a grad_loss_with_l2 s of
                      Inl e \<Rightarrow> []
                    | Inr s' \<Rightarrow> loop_states a grad_loss_with_l2 s')
              else [])"
  by pat_completeness auto
termination
proof (relation "measure (\<lambda>(a, g, s). nat (maximum_full_sweeps a * dims a - iter s))")
  show "wf (measure (\<lambda>(a, g, s). nat (maximum_full_sweeps a * dims a - iter s)))"
    by simp
next
  fix a :: one_step_args and g :: "fp list" and s s' :: loop_vars and continue :: bool
  assume c: "loop_cond a s = Inr continue" and t: "continue"
    and b: "loop_body a g s = Inr s'"
  from c t have lt: "iter s < maximum_full_sweeps a * dims a"
    by (auto simp: loop_cond_def and_then_def Let_def split: sum.splits)
  from b have "iter s' = iter s + 1"
    by (auto simp: loop_body_def and_then_def Let_def split: sum.splits if_splits)
  with lt show "((a, g, s'), (a, g, s))
      \<in> measure (\<lambda>(a, g, s). nat (maximum_full_sweeps a * dims a - iter s))"
    by simp
qed

text \<open>
  Convergence at a sweep boundary, as the specification words it: \<open>iter > 0\<close>,
  \<open>iter mod n = 0\<close> and
  \<open>x_update_diff_norm_sq < tolerance * (1 + ||x_start||\<^sub>2)\<^sup>2\<close>, the norm being the
  square root of the sum of the squares.
\<close>

definition converged_at_sweep_boundary :: "one_step_args \<Rightarrow> loop_vars \<Rightarrow> bool" where
  "converged_at_sweep_boundary a s =
     (iter s > 0 \<and> iter s mod int (length (x_start a)) = 0
      \<and> fp_lt (x_update_diff_norm_sq s)
            (fp_mul (tolerance a)
               (fp_square (fp_add (Finite 1)
                  (fp_sqrt (reduce_sum (map fp_square (x_start a))))))))"


text \<open>The loop variables a call of \<^verbatim>\<open>minimize_sparse_one_step\<close> goes through.\<close>

definition one_step_states :: "one_step_args \<Rightarrow> fp list option \<Rightarrow> loop_vars list" where
  "one_step_states a x_update_var_arg =
     (case grad_loss_with_l2_of a of
        Inl e \<Rightarrow> []
      | Inr grad_loss_with_l2 \<Rightarrow>
          loop_states a grad_loss_with_l2
            (initial_loop_vars (case x_update_var_arg of
                                  None \<Rightarrow> replicate (nat (dims a)) (Finite 0)
                                | Some v \<Rightarrow> v)))"

section \<open>The adapter as the specification words it\<close>

text \<open>
  The specification describes the adapter entry by entry. A sample is invalid when its
  \<open>grad_mean\<close> is non-finite or equal to 0 or its variance is non-finite or \<open>\<le> 0\<close>;
  \<open>v = (y - mean) * grad_mean / variance\<close> with \<open>grad_mean\<close> replaced by 1 and the
  variance by \<open>+\<infinity>\<close> where invalid; \<open>curvature_middle = grad_mean^2 / variance\<close> with
  \<open>grad_mean\<close> replaced by 0 and the variance by \<open>+\<infinity>\<close> where invalid.
\<close>

definition invalid_entry :: "fp \<Rightarrow> fp \<Rightarrow> bool" where
  "invalid_entry grad_mean variance =
     (\<not> fp_is_finite grad_mean \<or> fp_eq grad_mean (Finite 0)
      \<or> \<not> fp_is_finite variance \<or> fp_le variance (Finite 0))"

definition spec_v_entry :: "fp \<Rightarrow> fp \<Rightarrow> fp \<Rightarrow> fp \<Rightarrow> fp" where
  "spec_v_entry y mean grad_mean variance =
     (if invalid_entry grad_mean variance
      then fp_div (fp_mul (fp_sub y mean) (Finite 1)) PosInf
      else fp_div (fp_mul (fp_sub y mean) grad_mean) variance)"

definition spec_curvature_middle_entry :: "fp \<Rightarrow> fp \<Rightarrow> fp" where
  "spec_curvature_middle_entry grad_mean variance =
     (if invalid_entry grad_mean variance
      then fp_div (fp_square (Finite 0)) PosInf
      else fp_div (fp_square grad_mean) variance)"

definition spec_v :: "fp list \<Rightarrow> fp list \<Rightarrow> fp list \<Rightarrow> fp list \<Rightarrow> fp list" where
  "spec_v response mean grad_mean variance =
     map (\<lambda>i. spec_v_entry (response ! i) (mean ! i) (grad_mean ! i) (variance ! i))
         [0..<length response]"

definition spec_curvature_middle :: "fp list \<Rightarrow> fp list \<Rightarrow> fp list" where
  "spec_curvature_middle grad_mean variance =
     map (\<lambda>i. spec_curvature_middle_entry (grad_mean ! i) (variance ! i)) [0..<length grad_mean]"

section \<open>The outer iteration as the specification words it\<close>

text \<open>
  \<open>Fit\<close> of the specification: while \<open>outer_iters < max_outer_iterations\<close> and not
  converged, evaluate the model at \<open>X x\<close>, run the adapter to get the gradient and the
  middle curvature weights, run the sweep with \<open>X\<close> as outer curvature factor, replace
  \<open>x\<close> by the sweep's output, adopt the sweep's flag, increment \<open>outer_iters\<close>. The
  scratch buffer is the update accumulator the sweeps reuse.
\<close>

function fit_spec_loop ::
  "matrix \<Rightarrow> fp list \<Rightarrow> glm \<Rightarrow> minimize_args \<Rightarrow> int \<Rightarrow> fp list \<Rightarrow> bool \<Rightarrow> int \<Rightarrow> fp list
     \<Rightarrow> error + (fp list \<times> bool \<times> int)" where
  "fit_spec_loop X y model m max_outer_iterations x converged outer_iters scratch =
     (if outer_iters < max_outer_iterations \<and> \<not> converged then
        (case sparse_or_dense_matvecmul X x False of
           Inl e \<Rightarrow> Inl e
         | Inr linear_predictor \<Rightarrow>
        (case grad_neg_log_likelihood_and_fim X linear_predictor y model of
           Inl e \<Rightarrow> Inl e
         | Inr (gradient, curvature_middle) \<Rightarrow>
        (case minimize_sparse_one_step
                \<lparr>x_start = x,
                 tolerance = tolerance m,
                 l1_regularizer = l1_regularizer m,
                 l2_regularizer = l2_regularizer m,
                 learning_rate = learning_rate m,
                 gradient_unregularized_loss = gradient,
                 hessian_unregularized_loss_outer = X,
                 hessian_unregularized_loss_middle = curvature_middle,
                 maximum_full_sweeps = maximum_full_sweeps_per_iteration m\<rparr>
                (Some scratch) of
           Inl e \<Rightarrow> Inl e
         | Inr ((x', converged', sweeps), scratch') \<Rightarrow>
             fit_spec_loop X y model m max_outer_iterations x' converged' (outer_iters + 1)
               scratch')))
      else Inr (x, converged, outer_iters))"
  by pat_completeness auto
termination
  by (relation "measure (\<lambda>(X, y, model, m, mx, x, c, i, scratch). nat (mx - i))") auto

text \<open>A model gives, for every linear predictor, three vectors of the predictor's
  length.\<close>

definition preserves_length :: "glm \<Rightarrow> bool" where
  "preserves_length model =
     (\<forall>eta. case model eta of (mean, variance, grad_mean) \<Rightarrow>
        length mean = length eta \<and> length variance = length eta \<and> length grad_mean = length eta)"

section \<open>The curvature matrix as the specification words it\<close>

text \<open>
  Column \<open>j\<close> of \<open>H_outer\<^sup>T \<sqdot> diag(h_mid) \<sqdot> H_outer\<close>, with \<open>2 * l2_regularizer\<close> added
  on entry \<open>j\<close> (and 0 on the others) when L2 regularization is enabled. Entry \<open>k\<close> is the
  sum over the samples \<open>i\<close> of \<open>H[i, k] * (h[i] * H[i, j])\<close>; sums and products are those
  of the floating-point values.
\<close>

definition curvature_column :: "one_step_args \<Rightarrow> nat \<Rightarrow> fp list" where
  "curvature_column a j =
     map (\<lambda>k. let c = reduce_sum
                         (map (\<lambda>i. fp_mul (entry (hessian_unregularized_loss_outer a) i k)
                                      (fp_mul (hessian_unregularized_loss_middle a ! i)
                                         (entry (hessian_unregularized_loss_outer a) i j)))
                              [0..<nrows (hessian_unregularized_loss_outer a)])
              in case l2_regularizer a of
                   None \<Rightarrow> c
                 | Some l2 \<Rightarrow> fp_add c (if k = j then fp_mul (Finite 2) l2 else Finite 0))
         [0..<ncols (hessian_unregularized_loss_outer a)]"

text \<open>
  The product of that matrix with a vector \<open>x\<close> of \<open>n\<close> entries: entry \<open>k\<close> is the sum
  over \<open>j\<close> of the matrix entry \<open>(k, j)\<close> times \<open>x[j]\<close>.
\<close>

definition curvature_times :: "one_step_args \<Rightarrow> fp list \<Rightarrow> fp list" where
  "curvature_times a x =
     map (\<lambda>k. reduce_sum (map (\<lambda>j. fp_mul (curvature_column a j ! k) (x ! j)) [0..<length x]))
         [0..<length x]"

text \<open>
  The loop variables have the shape of \<open>x_start\<close>, and the variable holds the value of
  \<open>x_update\<close>.
\<close>

definition shapes_agree :: "one_step_args \<Rightarrow> loop_vars \<Rightarrow> bool" where
  "shapes_agree a s =
     (length (x_update s) = length (x_start a)
      \<and> length (hess_matmul_x_update s) = length (x_start a)
      \<and> x_update_var s = x_update s)"

section \<open>A worked example\<close>

text \<open>
  Two coefficients, two samples, the identity as outer factor and unit middle weights, the
  gradient \<open>(0, -1)\<close> at \<open>x_start = (0, 0)\<close>, no regularization, two sweeps allowed.
  The first sweep moves the second coordinate by 1, the second sweep moves nothing.
  \<open>example_state i d u\<close> are the loop variables after \<open>i\<close> coordinate iterations.
\<close>

definition example_outer :: matrix where
  "example_outer = \<lparr>nrows = 2, ncols = 2, entry = (\<lambda>i j. if i = j then Finite 1 else Finite 0)\<rparr>"

definition example_args :: one_step_args where
  "example_args =
     \<lparr>x_start = [Finite 0, Finite 0],
      tolerance = Finite (1 / 100),
      l1_regularizer = Finite 0,
      l2_regularizer = None,
      learning_rate = None,
      gradient_unregularized_loss = [Finite 0, Finite (- 1)],
      hessian_unregularized_loss_outer = example_outer,
      hessian_unregularized_loss_middle = [Finite 1, Finite 1],
      maximum_full_sweeps = 2\<rparr>"

definition example_state :: "int \<Rightarrow> real \<Rightarrow> real \<Rightarrow> loop_vars" where
  "example_state i d u =
     \<lparr>iter = i, x_update_diff_norm_sq = Finite d, x_update = [Finite 0, Finite u],
      hess_matmul_x_update = [Finite 0, Finite u], x_update_var = [Finite 0, Finite u]\<rparr>"

text \<open>
  A model whose second sample has variance 0, and a one-by-one model matrix for a model
  whose mean, variance and gradient of the mean have overflowed to \<open>+\<infinity>\<close>.
\<close>

definition example_unit_matrix :: matrix where
  "example_unit_matrix = \<lparr>nrows = 1, ncols = 1, entry = (\<lambda>i j. Finite 1)\<rparr>"

definition example_glm :: glm where
  "example_glm eta = (eta, [Finite 1, Finite 0], [Finite 1, Finite 1])"



text \<open>
  The end-to-end scenario of the specification: four samples, two coefficients, the
  linear-Gaussian model (identity link, unit variance), at most ten outer iterations of
  one sweep.
\<close>

definition gaussian_glm :: glm where
  "gaussian_glm eta = (eta, map (\<lambda>_. Finite 1) eta, map (\<lambda>_. Finite 1) eta)"

definition scenario_matrix :: matrix where
  "scenario_matrix =
     \<lparr>nrows = 4, ncols = 2,
      entry = (\<lambda>i j. [[Finite 1, Finite 0], [Finite 0, Finite 1],
                       [Finite 1, Finite 1], [Finite 1, Finite (- 1)]] ! i ! j)\<rparr>"

definition scenario_args :: minimize_args where
  "scenario_args =
     \<lparr>x_start = [Finite 0, Finite 0],
      tolerance = Finite (1 / 10000000000),
      l1_regularizer = Finite 0,
      l2_regularizer = None,
      learning_rate = None,
      maximum_iterations = Some 10,
      maximum_full_sweeps_per_iteration = 1\<rparr>"

definition scenario_response :: "fp list" where
  "scenario_response = [Finite 1, Finite 1, Finite 2, Finite 0]"

text \<open>Two samples of one feature; a response of length one will be given for them.\<close>

definition column_matrix :: matrix where
  "column_matrix = \<lparr>nrows = 2, ncols = 1, entry = (\<lambda>i j. Finite 1)\<rparr>"

definition column_args :: minimize_args where
  "column_args =
     \<lparr>x_start = [Finite 0],
      tolerance = Finite (1 / 100),
      l1_regularizer = Finite 0,
      l2_regularizer = None,
      learning_rate = None,
      maximum_iterations = Some 1,
      maximum_full_sweeps_per_iteration = 1\<rparr>"

text \<open>
  A feature matrix with an infinite entry: two samples, two coefficients, the second
  feature of the first sample \<open>+\<infinity>\<close>, unit middle weights, the gradient \<open>(-1, 0)\<close> at
  \<open>x_start = (0, 0)\<close>, no regularization, one sweep allowed. The first coordinate
  iteration moves the first coordinate by 1.
\<close>

definition infinite_feature_outer :: matrix where
  "infinite_feature_outer =
     \<lparr>nrows = 2, ncols = 2,
      entry = (\<lambda>i j. [[Finite 1, PosInf], [Finite 0, Finite 0]] ! i ! j)\<rparr>"

definition infinite_feature_args :: one_step_args where
  "infinite_feature_args =
     \<lparr>x_start = [Finite 0, Finite 0],
      tolerance = Finite (1 / 100),
      l1_regularizer = Finite 0,
      l2_regularizer = None,
      learning_rate = None,
      gradient_unregularized_loss = [Finite (- 1), Finite 0],
      hessian_unregularized_loss_outer = infinite_feature_outer,
      hessian_unregularized_loss_middle = [Finite 1, Finite 1],
      maximum_full_sweeps = 1\<rparr>"

section \<open>Rules for the loops\<close>

declare while_loop.simps [simp del] loop_states.simps [simp del]

lemma and_then_Inl [simp]: "and_then (Inl e) f = Inl e"
  by (simp add: and_then_def)
lemma and_then_Inr [simp]: "and_then (Inr x) f = f x"
  by (simp add: and_then_def)
lemma and_then_eq_Inr: "and_then m f = Inr y \<longleftrightarrow> (\<exists>x. m = Inr x \<and> f x = Inr y)"
  by (cases m) auto

lemma floormod_eq_Inr: "floormod i d = Inr r \<longleftrightarrow> d \<noteq> 0 \<and> r = i mod d"
  by (auto simp: floormod_def)


lemma loop_cond_eq_Inr:
  "loop_cond a s = Inr c \<longleftrightarrow>
     dims a \<noteq> 0 \<and> c = (iter s < maximum_full_sweeps a * dims a \<and> \<not> converged_at_sweep_boundary a s)"
  by (auto simp: loop_cond_def and_then_eq_Inr floormod_eq_Inr Let_def
        converged_at_sweep_boundary_def x_update_diff_norm_sq_convergence_threshold_def
        norm2_def dims_def)


lemma loop_states_rule:
  assumes "P s"
    and "\<forall>u u'. P u \<and> loop_cond a u = Inr True \<and> loop_body a g u = Inr u' \<longrightarrow> P u'"
  shows "\<forall>t \<in> set (loop_states a g s). P t"
  using assms
proof (induction a g s rule: loop_states.induct)
  case (1 a g s)
  show ?case
  proof (cases "loop_cond a s")
    case (Inl e)
    with "1.prems"(1) show ?thesis by (simp add: loop_states.simps)
  next
    case (Inr c)
    show ?thesis
    proof (cases c)
      case False
      with Inr "1.prems"(1) show ?thesis by (simp add: loop_states.simps)
    next
      case True
      show ?thesis
      proof (cases "loop_body a g s")
        case (Inl e)
        with Inr True "1.prems"(1) show ?thesis by (simp add: loop_states.simps)
      next
        case b: (Inr s')
        from Inr True have "loop_cond a s = Inr True" by simp
        with "1.prems"(1,2) b have "P s'" by blast
        from "1.IH"[OF Inr True b this "1.prems"(2)] have "\<forall>t\<in>set (loop_states a g s'). P t" by blast
        with Inr True b "1.prems"(1) show ?thesis by (simp add: loop_states.simps[of a g s])
      qed
    qed
  qed
qed





section \<open>The worked example, evaluated\<close>

lemmas eval_simps =
  dims_def num_samples_def grad_loss_with_l2_of_def mul_or_none_def reduce_exiting_on_none_def
  initial_loop_vars_def loop_cond_def loop_body_def floormod_def
  x_update_diff_norm_sq_convergence_threshold_def norm2_def reduce_sum_def fp_square_def Let_def
  coord_delta_def tensor_index_def hessian_diag_elt_with_l2_def sparse_or_dense_matmul_onehot_def
  sparse_or_dense_inner_square_def add_ignoring_nones_def mul_ignoring_nones_def
  reduce_ignoring_nones_def not_none_def soft_threshold_def fp_sub_def fp_maximum_def fp_gt_def
  inf_times_def do_update_def elementwise_def sparse_or_dense_matvecmul_def scatter_update_def
  one_hot_like_def upt_rec numeral_2_eq_2 numeral_3_eq_3

lemma example_threshold:
  "x_update_diff_norm_sq_convergence_threshold example_args = Finite (1 / 100)"
  by (simp add: example_args_def eval_simps)

lemma example_grad: "grad_loss_with_l2_of example_args = Inr [Finite 0, Finite (- 1)]"
  by (simp add: example_args_def eval_simps)

lemma example_body_0:
  "loop_body example_args [Finite 0, Finite (- 1)] (example_state 0 0 0) = Inr (example_state 1 0 0)"
  by (simp add: example_args_def example_outer_def example_state_def eval_simps)

lemma example_body_1:
  "loop_body example_args [Finite 0, Finite (- 1)] (example_state 1 0 0) = Inr (example_state 2 1 1)"
  by (simp add: example_args_def example_outer_def example_state_def eval_simps)

lemma example_body_2:
  "loop_body example_args [Finite 0, Finite (- 1)] (example_state 2 1 1) = Inr (example_state 3 0 1)"
  by (simp add: example_args_def example_outer_def example_state_def eval_simps)

lemma example_body_3:
  "loop_body example_args [Finite 0, Finite (- 1)] (example_state 3 0 1) = Inr (example_state 4 0 1)"
  by (simp add: example_args_def example_outer_def example_state_def eval_simps)

lemma example_cond:
  "loop_cond example_args (example_state 0 0 0) = Inr True"
  "loop_cond example_args (example_state 1 0 0) = Inr True"
  "loop_cond example_args (example_state 2 1 1) = Inr True"
  "loop_cond example_args (example_state 3 0 1) = Inr True"
  "loop_cond example_args (example_state 4 0 1) = Inr False"
  by (simp_all add: example_args_def example_state_def eval_simps)

lemma example_states:
  "one_step_states example_args None =
     [example_state 0 0 0, example_state 1 0 0, example_state 2 1 1, example_state 3 0 1,
      example_state 4 0 1]"
proof -
  have i: "initial_loop_vars (replicate (nat (dims example_args)) (Finite 0)) = example_state 0 0 0"
    by (simp add: example_args_def example_state_def eval_simps)
  show ?thesis
    by (simp add: one_step_states_def example_grad i loop_states.simps
          example_cond example_body_0 example_body_1 example_body_2 example_body_3)
qed


lemma example_coord_delta_2:
  "coord_delta example_args [Finite 0, Finite (- 1)] (example_state 2 1 1) 0 = Inr (Finite 0)"
  by (simp add: example_args_def example_outer_def example_state_def eval_simps)

lemma example_floormod_2: "floormod (iter (example_state 2 1 1)) (dims example_args) = Inr 0"
  by (simp add: example_args_def example_state_def eval_simps)

declare fit_spec_loop.simps [simp del] outer_while_loop.simps [simp del]

lemmas adapter_eval_simps =
  grad_neg_log_likelihood_and_fim_fn_def grad_neg_log_likelihood_and_fim_def is_valid_of_def
  mask_if_invalid_def fp_not_equal_def minimize_sparse_def fit_sparse_def outer_loop_cond_def
  outer_loop_body_def numeral_eq_Suc

lemma scenario_grad_0:
  "grad_neg_log_likelihood_and_fim_fn scenario_matrix scenario_response gaussian_glm
     [Finite 0, Finite 0]
   = Inr ([Finite (- 3), Finite (- 3)], scenario_matrix, [Finite 1, Finite 1, Finite 1, Finite 1])"
  by (simp add: scenario_matrix_def scenario_response_def gaussian_glm_def adapter_eval_simps eval_simps)

lemma scenario_grad_1:
  "grad_neg_log_likelihood_and_fim_fn scenario_matrix scenario_response gaussian_glm
     [Finite 1, Finite 1]
   = Inr ([Finite 0, Finite 0], scenario_matrix, [Finite 1, Finite 1, Finite 1, Finite 1])"
  by (simp add: scenario_matrix_def scenario_response_def gaussian_glm_def adapter_eval_simps eval_simps)

lemma one_plus_sqrt_two_sq: "0 < (1 + sqrt 2) * (1 + sqrt 2)"
  by (simp add: zero_less_mult_iff add_pos_pos)

lemma scenario_step_0:
  "minimize_sparse_one_step
     \<lparr>x_start = [Finite 0, Finite 0], tolerance = Finite (1 / 10000000000),
      l1_regularizer = Finite 0, l2_regularizer = None, learning_rate = None,
      gradient_unregularized_loss = [Finite (- 3), Finite (- 3)],
      hessian_unregularized_loss_outer = scenario_matrix,
      hessian_unregularized_loss_middle = [Finite 1, Finite 1, Finite 1, Finite 1],
      maximum_full_sweeps = 1\<rparr> (Some [Finite 0, Finite 0])
   = Inr (([Finite 1, Finite 1], False, Finite 1), [Finite 1, Finite 1])"
  by (simp add: minimize_sparse_one_step_def while_loop.simps scenario_matrix_def eval_simps
        numeral_eq_Suc one_plus_sqrt_two_sq)

lemma scenario_step_1:
  "minimize_sparse_one_step
     \<lparr>x_start = [Finite 1, Finite 1], tolerance = Finite (1 / 10000000000),
      l1_regularizer = Finite 0, l2_regularizer = None, learning_rate = None,
      gradient_unregularized_loss = [Finite 0, Finite 0],
      hessian_unregularized_loss_outer = scenario_matrix,
      hessian_unregularized_loss_middle = [Finite 1, Finite 1, Finite 1, Finite 1],
      maximum_full_sweeps = 1\<rparr> (Some [Finite 1, Finite 1])
   = Inr (([Finite 1, Finite 1], True, Finite 1), [Finite 0, Finite 0])"
  by (simp add: minimize_sparse_one_step_def while_loop.simps scenario_matrix_def eval_simps
        numeral_eq_Suc one_plus_sqrt_two_sq)

lemma scenario_fit:
  "fit_sparse scenario_matrix scenario_response gaussian_glm scenario_args None
   = Inr ([Finite 1, Finite 1], True, 2)"
  by (simp add: fit_sparse_def minimize_sparse_def outer_while_loop.simps outer_loop_cond_def
        outer_loop_body_def scenario_args_def scenario_grad_0 scenario_grad_1
        scenario_step_0 scenario_step_1 numeral_2_eq_2)










section \<open>Properties of the soft-thresholding operator\<close>

lemma fp_eq_NaN [simp]: "fp_eq x NaN = False"
  by (cases x) simp_all

lemma soft_threshold_zero: "x \<noteq> NaN \<Longrightarrow> fp_eq (soft_threshold x (Finite 0)) x"
  by (cases x)
     (auto simp: soft_threshold_def fp_sub_def fp_maximum_def fp_gt_def inf_times_def sgn_if)

lemma soft_threshold_sign:
  "fp_le (Finite 0) t \<Longrightarrow> x \<noteq> NaN \<Longrightarrow>
     fp_sign (soft_threshold x t) = fp_sign x \<or> soft_threshold x t = Finite 0"
  by (cases x; cases t)
     (auto simp: soft_threshold_def fp_sub_def fp_maximum_def fp_gt_def fp_le_def
                 inf_times_def sgn_if)

lemma soft_threshold_abs:
  "fp_le (Finite 0) t \<Longrightarrow> x \<noteq> NaN \<Longrightarrow>
     fp_abs (soft_threshold x t) = fp_maximum (fp_sub (fp_abs x) t) (Finite 0)"
  by (cases x; cases t)
     (auto simp: soft_threshold_def fp_sub_def fp_maximum_def fp_gt_def fp_le_def
                 inf_times_def sgn_if abs_mult)

text \<open>
  C4 (as stated). For every input \<open>x\<close> and every threshold \<open>\<ge> 0\<close>,
  \<open>soft_threshold(x, 0) == x\<close>. This fails on a NaN entry, which is equal to nothing, itself
  included: the comparison \<open>==\<close> of the output with the input is false there, whatever the
  output is.
\<close>

theorem soft_threshold_nan_counterexample:
  "fp_le (Finite 0) (Finite 0)
   \<and> \<not> list_all2 fp_eq (soft_threshold_tensor [NaN] (Finite 0)) [NaN]"
  by (simp add: fp_le_def soft_threshold_tensor_def)

text \<open>
  C4 (amended). For every input \<open>x\<close> without NaN entries and every threshold \<open>\<ge> 0\<close>,
  \<open>soft_threshold(x, threshold)\<close> is, elementwise, \<open>sign(x) * max(|x| - threshold, 0)\<close>;
  \<open>soft_threshold(x, 0) == x\<close>; each output entry has the sign of the input entry or is
  exactly 0; and its absolute value is \<open>max(|x| - threshold, 0)\<close>.
\<close>

theorem soft_threshold_contract:
  assumes "fp_le (Finite 0) threshold" and "NaN \<notin> set xs"
  shows "soft_threshold_tensor xs threshold =
           map (\<lambda>x. fp_mul (fp_sign x) (fp_maximum (fp_sub (fp_abs x) threshold) (Finite 0))) xs
       \<and> list_all2 fp_eq (soft_threshold_tensor xs (Finite 0)) xs
       \<and> (\<forall>i < length xs.
            (fp_sign (soft_threshold_tensor xs threshold ! i) = fp_sign (xs ! i)
               \<or> soft_threshold_tensor xs threshold ! i = Finite 0)
          \<and> fp_abs (soft_threshold_tensor xs threshold ! i)
              = fp_maximum (fp_sub (fp_abs (xs ! i)) threshold) (Finite 0))"
proof (intro conjI allI impI)
  show "soft_threshold_tensor xs threshold =
          map (\<lambda>x. fp_mul (fp_sign x) (fp_maximum (fp_sub (fp_abs x) threshold) (Finite 0))) xs"
    by (simp add: soft_threshold_tensor_def soft_threshold_def)
next
  from assms(2) show "list_all2 fp_eq (soft_threshold_tensor xs (Finite 0)) xs"
    by (auto simp: soft_threshold_tensor_def list_all2_conv_all_nth intro!: soft_threshold_zero)
       (metis nth_mem)
next
  fix i assume i: "i < length xs"
  with assms(2) have nn: "xs ! i \<noteq> NaN" by (metis nth_mem)
  from i have e: "soft_threshold_tensor xs threshold ! i = soft_threshold (xs ! i) threshold"
    by (simp add: soft_threshold_tensor_def)
  show "fp_sign (soft_threshold_tensor xs threshold ! i) = fp_sign (xs ! i)
          \<or> soft_threshold_tensor xs threshold ! i = Finite 0"
    unfolding e by (rule soft_threshold_sign [OF assms(1) nn])
  show "fp_abs (soft_threshold_tensor xs threshold ! i)
          = fp_maximum (fp_sub (fp_abs (xs ! i)) threshold) (Finite 0)"
    unfolding e by (rule soft_threshold_abs [OF assms(1) nn])
qed

theorem soft_threshold_contract_witness:
  "fp_le (Finite 0) (Finite 1) \<and> NaN \<notin> set [Finite 3, Finite (- 1 / 2), NegInf]
   \<and> soft_threshold_tensor [Finite 3, Finite (- 1 / 2), NegInf] (Finite 1)
       = [Finite 2, Finite 0, NegInf]
   \<and> list_all2 fp_eq (soft_threshold_tensor [Finite 3, Finite (- 1 / 2), NegInf] (Finite 0))
        [Finite 3, Finite (- 1 / 2), NegInf]"
proof -
  have h1: "fp_le (Finite 0) (Finite 1)" by (simp add: fp_le_def)
  have h2: "NaN \<notin> set [Finite 3, Finite (- 1 / 2), NegInf]" by simp
  from soft_threshold_contract [OF h1 h2] h1 h2 show ?thesis
    by (simp add: fp_sub_def fp_maximum_def fp_gt_def inf_times_def)
qed

section \<open>Properties of the coordinate loop\<close>

lemma coord_delta_diff [simp]:
  "coord_delta a g (s\<lparr>x_update_diff_norm_sq := d\<rparr>) coord = coord_delta a g s coord"
  by (simp add: coord_delta_def)

lemma do_update_diff:
  "do_update a (s\<lparr>x_update_diff_norm_sq := d\<rparr>) coord delta =
     and_then (do_update a s coord delta) (\<lambda>s'. Inr (s'\<lparr>x_update_diff_norm_sq := fp_add d (fp_square delta)\<rparr>))"
  by (simp add: do_update_def and_then_def split: sum.splits option.splits)


lemma initial_iter [simp]: "iter (initial_loop_vars v) = 0"
  by (simp add: initial_loop_vars_def)




lemma map2_add_zeros: "length zs = length xs \<Longrightarrow> \<forall>z \<in> set zs. z = Finite 0 \<Longrightarrow> map2 fp_add xs zs = xs"
proof (induction xs arbitrary: zs)
  case Nil
  then show ?case by simp
next
  case (Cons x xs)
  then obtain z zs' where zs: "zs = z # zs'" by (cases zs) auto
  have "fp_add x (Finite 0) = x" by (cases x) auto
  with Cons zs show ?case by auto
qed







text \<open>
  C7 (as stated). A step whose \<open>delta\<close> is 0 returns \<open>x_update_diff_norm_sq\<close> unchanged.
  In the worked example the third point of the run is the start of the second sweep, with
  the accumulator at 1 from the first sweep; the coordinate's \<open>delta\<close> is 0, and the step
  returns the accumulator reset to 0.
\<close>

theorem skip_step_reset_counterexample:
  "one_step_states example_args None ! 2 = example_state 2 1 1
   \<and> coord_delta example_args [Finite 0, Finite (- 1)] (example_state 2 1 1) 0 = Inr (Finite 0)
   \<and> fp_eq (Finite 0) (Finite 0)
   \<and> loop_body example_args [Finite 0, Finite (- 1)] (example_state 2 1 1)
       = Inr (example_state 3 0 1)
   \<and> x_update_diff_norm_sq (example_state 2 1 1) = Finite 1
   \<and> x_update_diff_norm_sq (example_state 3 0 1) = Finite 0"
  by (simp add: example_states example_coord_delta_2 example_body_2) (simp add: example_state_def)

text \<open>
  C7 (amended). In a coordinate iteration whose \<open>delta\<close> equals 0, the step leaves
  \<open>x_update\<close>, \<open>hess_matmul_x_update\<close> and the variable unchanged and increments
  \<open>iter\<close>; \<open>x_update_diff_norm_sq\<close> is unchanged when \<open>iter mod n \<noteq> 0\<close> and is reset to
  0 when \<open>iter mod n = 0\<close>. The result does not depend on \<^verbatim>\<open>_do_update\<close>, which is not
  evaluated.
\<close>

theorem skip_step:
  assumes "floormod (iter s) (dims a) = Inr coord"
    and "coord_delta a g s coord = Inr delta"
    and "fp_eq delta (Finite 0)"
  shows "loop_body a g s =
           Inr (s\<lparr>x_update_diff_norm_sq :=
                     (if coord = 0 then Finite 0 else x_update_diff_norm_sq s),
                  iter := iter s + 1\<rparr>)"
  using assms by (simp add: loop_body_def Let_def)

theorem skip_step_witness:
  "floormod (iter (example_state 2 1 1)) (dims example_args) = Inr 0
   \<and> coord_delta example_args [Finite 0, Finite (- 1)] (example_state 2 1 1) 0 = Inr (Finite 0)
   \<and> fp_eq (Finite 0) (Finite 0)
   \<and> loop_body example_args [Finite 0, Finite (- 1)] (example_state 2 1 1)
       = Inr (example_state 3 0 1)"
proof -
  have e: "fp_eq (Finite 0) (Finite 0)" by simp
  from skip_step [OF example_floormod_2 example_coord_delta_2 e]
    example_floormod_2 example_coord_delta_2 e
  show ?thesis by (simp add: example_state_def)
qed

text \<open>
  C8. At a sweep boundary (\<open>iter mod n = 0\<close>) the step does not depend on the value
  \<open>x_update_diff_norm_sq\<close> had before: the accumulator restarts from 0, and after the
  step it is 0 when the coordinate did not move and \<open>0 + delta^2\<close> when it moved by
  \<open>delta\<close>.
\<close>

theorem sweep_boundary_reset:
  assumes "floormod (iter s) (dims a) = Inr 0"
  shows "loop_body a g (s\<lparr>x_update_diff_norm_sq := d\<rparr>) = loop_body a g s
       \<and> (\<forall>s'. loop_body a g s = Inr s' \<longrightarrow>
             (\<exists>delta. coord_delta a g s 0 = Inr delta
                \<and> x_update_diff_norm_sq s' =
                    (if fp_eq delta (Finite 0) then Finite 0
                     else fp_add (Finite 0) (fp_square delta))))"
proof (intro conjI allI impI)
  from assms show "loop_body a g (s\<lparr>x_update_diff_norm_sq := d\<rparr>) = loop_body a g s"
    by (simp add: loop_body_def Let_def)
next
  fix s' assume b: "loop_body a g s = Inr s'"
  with assms obtain delta where d: "coord_delta a g s 0 = Inr delta"
    by (auto simp: loop_body_def Let_def and_then_eq_Inr)
  show "\<exists>delta. coord_delta a g s 0 = Inr delta
          \<and> x_update_diff_norm_sq s' =
              (if fp_eq delta (Finite 0) then Finite 0 else fp_add (Finite 0) (fp_square delta))"
  proof (cases "fp_eq delta (Finite 0)")
    case True
    with assms d b show ?thesis by (auto simp: loop_body_def Let_def)
  next
    case False
    with assms d b show ?thesis
      by (auto simp: loop_body_def Let_def do_update_diff and_then_eq_Inr)
  qed
qed

theorem sweep_boundary_reset_witness:
  "floormod (iter (example_state 2 1 1)) (dims example_args) = Inr 0
   \<and> loop_body example_args [Finite 0, Finite (- 1)]
        ((example_state 2 1 1)\<lparr>x_update_diff_norm_sq := Finite 7\<rparr>)
       = Inr (example_state 3 0 1)
   \<and> x_update_diff_norm_sq (example_state 3 0 1) = Finite 0"
proof -
  from sweep_boundary_reset [OF example_floormod_2, of "[Finite 0, Finite (- 1)]" "Finite 7"]
    example_floormod_2 example_body_2
  show ?thesis by (simp add: example_state_def)
qed

section \<open>Properties of the outer loop\<close>

lemma outer_loop_refines:
  "and_then (outer_while_loop (grad_neg_log_likelihood_and_fim_fn X y model)
               (m\<lparr>maximum_iterations := Some mx\<rparr>) x c i var)
            (\<lambda>(r, var'). Inr r)
   = fit_spec_loop X y model m mx x c i var"
proof (induction "nat (mx - i)" arbitrary: x c i var rule: less_induct)
  case less
  let ?m = "m\<lparr>maximum_iterations := Some mx\<rparr>"
  let ?fn = "grad_neg_log_likelihood_and_fim_fn X y model"
  show ?case
  proof (cases "i < mx \<and> \<not> c")
    case False
    then have "outer_loop_cond ?m c i = Inr False"
      by (auto simp: outer_loop_cond_def)
    then have "outer_while_loop ?fn ?m x c i var = Inr ((x, c, i), var)"
      by (simp add: outer_while_loop.simps[of ?fn ?m x c i var])
    moreover have "fit_spec_loop X y model m mx x c i var = Inr (x, c, i)"
      using False by (subst fit_spec_loop.simps) auto
    ultimately show ?thesis by simp
  next
    case True
    then have "outer_loop_cond ?m c i = Inr True"
      by (auto simp: outer_loop_cond_def)
    then have ow: "outer_while_loop ?fn ?m x c i var =
        (case outer_loop_body ?fn ?m x i var of
           Inl e \<Rightarrow> Inl e
         | Inr ((x', c', i'), var') \<Rightarrow> outer_while_loop ?fn ?m x' c' i' var')"
      by (simp add: outer_while_loop.simps[of ?fn ?m x c i var])
    have fs: "fit_spec_loop X y model m mx x c i var =
        (case sparse_or_dense_matvecmul X x False of
           Inl e \<Rightarrow> Inl e
         | Inr linear_predictor \<Rightarrow>
        (case grad_neg_log_likelihood_and_fim X linear_predictor y model of
           Inl e \<Rightarrow> Inl e
         | Inr (gradient, curvature_middle) \<Rightarrow>
        (case minimize_sparse_one_step
                \<lparr>x_start = x,
                 tolerance = tolerance m,
                 l1_regularizer = l1_regularizer m,
                 l2_regularizer = l2_regularizer m,
                 learning_rate = learning_rate m,
                 gradient_unregularized_loss = gradient,
                 hessian_unregularized_loss_outer = X,
                 hessian_unregularized_loss_middle = curvature_middle,
                 maximum_full_sweeps = maximum_full_sweeps_per_iteration m\<rparr>
                (Some var) of
           Inl e \<Rightarrow> Inl e
         | Inr ((x', converged', sweeps), scratch') \<Rightarrow>
             fit_spec_loop X y model m mx x' converged' (i + 1) scratch')))"
      using True by (subst fit_spec_loop.simps) simp
    show ?thesis
    proof (cases "sparse_or_dense_matvecmul X x False")
      case (Inl e)
      show ?thesis using Inl
        by (simp add: ow fs outer_loop_body_def
              grad_neg_log_likelihood_and_fim_fn_def)
    next
      case mv: (Inr eta)
      show ?thesis
      proof (cases "grad_neg_log_likelihood_and_fim X eta y model")
        case (Inl e)
        with mv show ?thesis
          by (simp add: ow fs outer_loop_body_def
                grad_neg_log_likelihood_and_fim_fn_def)
      next
        case (Inr p)
        then obtain g cm where ad: "grad_neg_log_likelihood_and_fim X eta y model = Inr (g, cm)"
          by (cases p) simp
        let ?a = "\<lparr>x_start = x, tolerance = tolerance m, l1_regularizer = l1_regularizer m,
                   l2_regularizer = l2_regularizer m, learning_rate = learning_rate m,
                   gradient_unregularized_loss = g, hessian_unregularized_loss_outer = X,
                   hessian_unregularized_loss_middle = cm,
                   maximum_full_sweeps = maximum_full_sweeps_per_iteration m\<rparr>"
        show ?thesis
        proof (cases "minimize_sparse_one_step ?a (Some var)")
          case (Inl e)
          with mv ad show ?thesis
            by (simp add: ow fs outer_loop_body_def
                  grad_neg_log_likelihood_and_fim_fn_def)
        next
          case (Inr r)
          then obtain x' c' sw var' where
            os: "minimize_sparse_one_step ?a (Some var) = Inr ((x', c', sw), var')"
            by (cases r) auto
          from True have "nat (mx - (i + 1)) < nat (mx - i)" by simp
          from less [OF this]
          have "and_then (outer_while_loop ?fn ?m x' c' (i + 1) var') (\<lambda>(r, var'). Inr r)
                = fit_spec_loop X y model m mx x' c' (i + 1) var'" .
          with mv ad os show ?thesis
            by (simp add: ow fs outer_loop_body_def
                  grad_neg_log_likelihood_and_fim_fn_def)
        qed
      qed
    qed
  qed
qed

text \<open>
  C5. The outer loop of \<^verbatim>\<open>minimize_sparse\<close> runs while \<open>iter < maximum_iterations\<close> and
  not converged; an iteration calls the callback at the current \<open>x\<close>, runs
  \<^verbatim>\<open>minimize_sparse_one_step\<close> once on the callback's result, takes its output as the new
  \<open>x\<close> and its flag as the convergence signal, and increments the counter. \<^verbatim>\<open>fit_sparse\<close>,
  whose callback evaluates the model at \<open>X x\<close> and runs the adapter with \<open>X\<close> as outer
  factor, computes the iteration the specification describes, and returns the final
  \<open>x\<close>, flag and count.
\<close>

theorem outer_driver:
  "outer_while_loop fn (m\<lparr>maximum_iterations := Some mx\<rparr>) x converged i var =
     (if i < mx \<and> \<not> converged
      then and_then (fn x) (\<lambda>(g, h_outer, h_middle).
           and_then (minimize_sparse_one_step
                       \<lparr>x_start = x,
                        tolerance = tolerance m,
                        l1_regularizer = l1_regularizer m,
                        l2_regularizer = l2_regularizer m,
                        learning_rate = learning_rate m,
                        gradient_unregularized_loss = g,
                        hessian_unregularized_loss_outer = h_outer,
                        hessian_unregularized_loss_middle = h_middle,
                        maximum_full_sweeps = maximum_full_sweeps_per_iteration m\<rparr>
                       (Some var)) (\<lambda>((x', converged', sweeps), var').
             outer_while_loop fn (m\<lparr>maximum_iterations := Some mx\<rparr>) x' converged' (i + 1)
               var'))
      else Inr ((x, converged, i), var))
   \<and> fit_sparse X y model (m\<lparr>maximum_iterations := Some mx\<rparr>) v
       = fit_spec_loop X y model m mx (x_start m) False 0
           (case v of None \<Rightarrow> replicate (length (x_start m)) (Finite 0) | Some w \<Rightarrow> w)"
proof
  show "outer_while_loop fn (m\<lparr>maximum_iterations := Some mx\<rparr>) x converged i var =
     (if i < mx \<and> \<not> converged
      then and_then (fn x) (\<lambda>(g, h_outer, h_middle).
           and_then (minimize_sparse_one_step
                       \<lparr>x_start = x,
                        tolerance = tolerance m,
                        l1_regularizer = l1_regularizer m,
                        l2_regularizer = l2_regularizer m,
                        learning_rate = learning_rate m,
                        gradient_unregularized_loss = g,
                        hessian_unregularized_loss_outer = h_outer,
                        hessian_unregularized_loss_middle = h_middle,
                        maximum_full_sweeps = maximum_full_sweeps_per_iteration m\<rparr>
                       (Some var)) (\<lambda>((x', converged', sweeps), var').
             outer_while_loop fn (m\<lparr>maximum_iterations := Some mx\<rparr>) x' converged' (i + 1)
               var'))
      else Inr ((x, converged, i), var))"
    by (simp add: outer_while_loop.simps[of fn _ x converged i var] outer_loop_cond_def
          outer_loop_body_def and_then_def split: sum.splits prod.splits)
next
  show "fit_sparse X y model (m\<lparr>maximum_iterations := Some mx\<rparr>) v
       = fit_spec_loop X y model m mx (x_start m) False 0
           (case v of None \<Rightarrow> replicate (length (x_start m)) (Finite 0) | Some w \<Rightarrow> w)"
    by (simp add: fit_sparse_def minimize_sparse_def outer_loop_refines cong: option.case_cong)
qed

theorem outer_driver_witness:
  "fit_sparse scenario_matrix scenario_response gaussian_glm scenario_args None
     = Inr ([Finite 1, Finite 1], True, 2)
   \<and> fit_spec_loop scenario_matrix scenario_response gaussian_glm scenario_args 10
       [Finite 0, Finite 0] False 0 [Finite 0, Finite 0] = Inr ([Finite 1, Finite 1], True, 2)"
proof -
  have m: "scenario_args\<lparr>maximum_iterations := Some 10\<rparr> = scenario_args"
    by (simp add: scenario_args_def)
  from outer_driver [where m = scenario_args and mx = 10 and X = scenario_matrix
      and y = scenario_response and model = gaussian_glm and v = None]
  have "fit_sparse scenario_matrix scenario_response gaussian_glm scenario_args None
     = fit_spec_loop scenario_matrix scenario_response gaussian_glm scenario_args 10
         (x_start scenario_args) False 0 (replicate (length (x_start scenario_args)) (Finite 0))"
    by (simp add: m)
  with scenario_fit show ?thesis
    by (simp add: scenario_args_def numeral_2_eq_2)
qed

text \<open>
  C10. With \<open>maximum_iterations = 0\<close>, \<^verbatim>\<open>minimize_sparse\<close> and \<^verbatim>\<open>fit_sparse\<close> return
  \<open>(x_start, False, 0)\<close> whatever the callback is (one that always fails included), so
  neither the callback nor \<^verbatim>\<open>minimize_sparse_one_step\<close> is run. In contrast
  \<^verbatim>\<open>minimize_sparse_one_step\<close> with \<open>maximum_full_sweeps = 0\<close> returns \<open>x_start\<close>,
  zero sweeps, and the flag \<open>0 < threshold\<close> computed from the zero update.
\<close>

theorem zero_budget:
  "minimize_sparse fn (m\<lparr>maximum_iterations := Some 0\<rparr>) v = Inr (x_start m, False, 0)
   \<and> fit_sparse model_matrix response model (m\<lparr>maximum_iterations := Some 0\<rparr>) v
       = Inr (x_start m, False, 0)
   \<and> (x_start a \<noteq> [] \<longrightarrow> grad_loss_with_l2_of a = Inr g \<longrightarrow>
        minimize_sparse_one_step (a\<lparr>maximum_full_sweeps := 0\<rparr>) None
          = Inr ((x_start a,
                  fp_lt (Finite 0) (x_update_diff_norm_sq_convergence_threshold a),
                  Finite 0),
                 replicate (length (x_start a)) (Finite 0)))"
proof (intro conjI impI)
  show "minimize_sparse fn (m\<lparr>maximum_iterations := Some 0\<rparr>) v = Inr (x_start m, False, 0)"
    by (simp add: minimize_sparse_def outer_while_loop.simps outer_loop_cond_def Let_def)
  then show "fit_sparse model_matrix response model (m\<lparr>maximum_iterations := Some 0\<rparr>) v
       = Inr (x_start m, False, 0)"
    by (simp add: fit_sparse_def minimize_sparse_def outer_while_loop.simps outer_loop_cond_def Let_def)
next
  assume ne: "x_start a \<noteq> []" and g: "grad_loss_with_l2_of a = Inr g"
  let ?a = "a\<lparr>maximum_full_sweeps := 0\<rparr>"
  have g': "grad_loss_with_l2_of ?a = Inr g" using g by (simp add: grad_loss_with_l2_of_def cong: option.case_cong)
  have thr: "x_update_diff_norm_sq_convergence_threshold ?a = x_update_diff_norm_sq_convergence_threshold a"
    by (simp add: x_update_diff_norm_sq_convergence_threshold_def)
  have d: "dims ?a = dims a" "dims a \<noteq> 0" using ne by (simp_all add: dims_def)
  have c: "loop_cond ?a s = Inr False" if "iter s = 0" for s
    using d that by (simp add: loop_cond_eq_Inr)
  have w: "while_loop ?a g s = Inr s" if "iter s = 0" for s
    by (simp add: while_loop.simps[of ?a g s] c [OF that])
  have z: "map2 fp_add (x_start a) (replicate (length (x_start a)) (Finite 0)) = x_start a"
    by (rule map2_add_zeros) simp_all
  show "minimize_sparse_one_step ?a None
          = Inr ((x_start a, fp_lt (Finite 0) (x_update_diff_norm_sq_convergence_threshold a), Finite 0),
                 replicate (length (x_start a)) (Finite 0))"
    using d z by (simp add: minimize_sparse_one_step_def g' w thr initial_loop_vars_def elementwise_def dims_def map_replicate_const)
qed


theorem zero_budget_witness:
  "x_start example_args \<noteq> []
   \<and> grad_loss_with_l2_of example_args = Inr [Finite 0, Finite (- 1)]
   \<and> minimize_sparse_one_step (example_args\<lparr>maximum_full_sweeps := 0\<rparr>) None
       = Inr (([Finite 0, Finite 0], True, Finite 0), [Finite 0, Finite 0])"
proof -
  have n: "x_start example_args \<noteq> []" by (simp add: example_args_def)
  from zero_budget [where a = example_args and g = "[Finite 0, Finite (- 1)]"]
    n example_grad example_threshold
  show ?thesis by (simp add: example_args_def numeral_2_eq_2)
qed
section \<open>Properties of the adapter\<close>

lemma elementwise_same_length:
  "length xs = length ys \<Longrightarrow> elementwise f xs ys = Inr (map2 f xs ys)"
  by (simp add: elementwise_def)

lemma valid_iff_not_invalid:
  "(fp_is_finite g \<and> fp_not_equal g (Finite 0) \<and> fp_is_finite v \<and> fp_gt v (Finite 0))
     \<longleftrightarrow> \<not> invalid_entry g v"
  by (cases g; cases v) (auto simp: invalid_entry_def fp_not_equal_def fp_gt_def fp_le_def)

lemma is_valid_of_same_length:
  assumes "length grad_mean = length variance"
  shows "is_valid_of grad_mean variance =
           Inr (map (\<lambda>i. \<not> invalid_entry (grad_mean ! i) (variance ! i)) [0..<length grad_mean])"
proof -
  have "map2 (\<and>) (map2 (\<and>) (map2 (\<and>) (map fp_is_finite grad_mean)
                 (map (\<lambda>g. fp_not_equal g (Finite 0)) grad_mean)) (map fp_is_finite variance))
              (map (\<lambda>v. fp_gt v (Finite 0)) variance)
        = map (\<lambda>i. \<not> invalid_entry (grad_mean ! i) (variance ! i)) [0..<length grad_mean]"
    using assms by (intro nth_equalityI) (auto simp: valid_iff_not_invalid [symmetric])
  with assms show ?thesis
    by (simp add: is_valid_of_def elementwise_same_length)
qed

lemma invalid_curvature_zero:
  "invalid_entry g v \<Longrightarrow> spec_curvature_middle_entry g v = Finite 0"
  by (simp add: spec_curvature_middle_entry_def fp_square_def)

lemma invalid_v_zero:
  "invalid_entry g v \<Longrightarrow> fp_is_finite (fp_sub y m) \<Longrightarrow> spec_v_entry y m g v = Finite 0"
  by (cases "fp_sub y m") (simp_all add: spec_v_entry_def)

text \<open>
  C2 (as stated). Invalid samples contribute zero, for every model output. A sample
  whose mean, variance and gradient of the mean are all \<open>+\<infinity>\<close> (an overflowed
  exponential link) is invalid, but its \<open>v\<close> is \<open>(1 - \<infinity>) * 1 / \<infinity>\<close>, which is NaN, and
  so is the gradient.
\<close>

theorem adapter_nonfinite_mean_counterexample:
  "invalid_entry PosInf PosInf
   \<and> grad_neg_log_likelihood_and_fim example_unit_matrix [Finite 0] [Finite 1]
        (\<lambda>eta. ([PosInf], [PosInf], [PosInf])) = Inr ([NaN], [Finite 0])"
  by (simp add: invalid_entry_def grad_neg_log_likelihood_and_fim_def is_valid_of_def
        elementwise_def mask_if_invalid_def fp_sub_def sparse_or_dense_matvecmul_def
        example_unit_matrix_def reduce_sum_def fp_square_def fp_not_equal_def fp_gt_def inf_times_def)

text \<open>
  C2 (amended). For model outputs and a response of the same length, the adapter marks a
  sample invalid exactly when \<open>grad_mean\<close> is non-finite or \<open>= 0\<close> or the variance is
  non-finite or \<open>\<le> 0\<close>, and returns \<open>gradient = -(X\<^sup>T v)\<close> and \<open>curvature_middle\<close> with
  the masked entries the specification describes. An invalid sample has
  \<open>curvature_middle = 0\<close>, and \<open>v = 0\<close> whenever \<open>y - mean\<close> is finite.
\<close>

theorem adapter_masks:
  assumes "model linear_response = (mean, variance, grad_mean)"
    and "length mean = length response" and "length variance = length response"
    and "length grad_mean = length response"
  shows "grad_neg_log_likelihood_and_fim model_matrix linear_response response model =
           and_then (sparse_or_dense_matvecmul model_matrix
                       (spec_v response mean grad_mean variance) True)
             (\<lambda>g. Inr (map fp_neg g, spec_curvature_middle grad_mean variance))
       \<and> (\<forall>i < length response. invalid_entry (grad_mean ! i) (variance ! i) \<longrightarrow>
            spec_curvature_middle grad_mean variance ! i = Finite 0
            \<and> (fp_is_finite (fp_sub (response ! i) (mean ! i)) \<longrightarrow>
                 spec_v response mean grad_mean variance ! i = Finite 0))"
proof (intro conjI allI impI)
  let ?n = "length response"
  let ?valid = "map (\<lambda>i. \<not> invalid_entry (grad_mean ! i) (variance ! i)) [0..<length grad_mean]"
  have iv: "is_valid_of grad_mean variance = Inr ?valid"
    using assms by (intro is_valid_of_same_length) simp
  have v: "map2 fp_div
             (map2 fp_mul (map2 fp_sub response mean)
                (map2 (\<lambda>b v. if b then v else Finite 1) ?valid grad_mean))
             (map2 (\<lambda>b v. if b then v else PosInf) ?valid variance)
           = spec_v response mean grad_mean variance"
    using assms(2-4) by (intro nth_equalityI) (auto simp: spec_v_def spec_v_entry_def)
  have c: "map2 fp_div (map fp_square (map2 (\<lambda>b v. if b then v else Finite 0) ?valid grad_mean))
             (map2 (\<lambda>b v. if b then v else PosInf) ?valid variance)
           = spec_curvature_middle grad_mean variance"
    using assms(2-4)
    by (intro nth_equalityI) (auto simp: spec_curvature_middle_def spec_curvature_middle_entry_def)
  show "grad_neg_log_likelihood_and_fim model_matrix linear_response response model =
           and_then (sparse_or_dense_matvecmul model_matrix
                       (spec_v response mean grad_mean variance) True)
             (\<lambda>g. Inr (map fp_neg g, spec_curvature_middle grad_mean variance))"
    using assms(2-4) unfolding v [symmetric] c [symmetric]
    by (simp add: grad_neg_log_likelihood_and_fim_def assms(1) iv mask_if_invalid_def
          elementwise_same_length)
next
  fix i assume i: "i < length response" and inv: "invalid_entry (grad_mean ! i) (variance ! i)"
  with assms(4) show "spec_curvature_middle grad_mean variance ! i = Finite 0"
    by (simp add: spec_curvature_middle_def invalid_curvature_zero)
  assume "fp_is_finite (fp_sub (response ! i) (mean ! i))"
  with i inv show "spec_v response mean grad_mean variance ! i = Finite 0"
    by (simp add: spec_v_def invalid_v_zero)
qed

theorem adapter_masks_witness:
  "example_glm [Finite 0, Finite 0] = ([Finite 0, Finite 0], [Finite 1, Finite 0], [Finite 1, Finite 1])
   \<and> invalid_entry (Finite 1) (Finite 0)
   \<and> fp_is_finite (fp_sub (Finite 1) (Finite 0))
   \<and> grad_neg_log_likelihood_and_fim example_outer [Finite 0, Finite 0] [Finite 1, Finite 1]
        example_glm = Inr ([Finite (- 1), Finite 0], [Finite 1, Finite 0])"
proof -
  have m: "example_glm [Finite 0, Finite 0]
             = ([Finite 0, Finite 0], [Finite 1, Finite 0], [Finite 1, Finite 1])"
    by (simp add: example_glm_def)
  have i: "invalid_entry (Finite 1) (Finite 0)" by (simp add: invalid_entry_def fp_le_def)
  have s: "spec_v [Finite 1, Finite 1] [Finite 0, Finite 0] [Finite 1, Finite 1] [Finite 1, Finite 0]
             = [Finite 1, Finite 0]"
    "spec_curvature_middle [Finite 1, Finite 1] [Finite 1, Finite 0] = [Finite 1, Finite 0]"
    by (simp_all add: spec_v_def spec_v_entry_def spec_curvature_middle_def
          spec_curvature_middle_entry_def invalid_entry_def fp_le_def fp_sub_def fp_square_def
          upt_rec numeral_2_eq_2)
  from adapter_masks [where model = example_glm and linear_response = "[Finite 0, Finite 0]"
      and response = "[Finite 1, Finite 1]" and model_matrix = example_outer, OF m]
    m i s show ?thesis
    by (simp add: sparse_or_dense_matvecmul_def example_outer_def reduce_sum_def fp_sub_def
          upt_rec numeral_2_eq_2)
qed

section \<open>Shape mismatches\<close>

lemma preserves_lengthD:
  "preserves_length model \<Longrightarrow> model eta = (mean, variance, grad_mean) \<Longrightarrow>
     length mean = length eta \<and> length variance = length eta \<and> length grad_mean = length eta"
  unfolding preserves_length_def by (metis (mono_tags, lifting) case_prod_conv)

lemma adapter_response_mismatch:
  assumes "preserves_length model" and "length eta = nrows X"
    and "length response \<noteq> nrows X" and "length response \<noteq> 1"
  shows "grad_neg_log_likelihood_and_fim X eta response model = Inl InvalidArgument"
proof -
  obtain mean variance grad_mean where m: "model eta = (mean, variance, grad_mean)"
    by (cases "model eta") auto
  from preserves_lengthD [OF assms(1) m] assms(2)
  have l: "length mean = nrows X" "length variance = nrows X" "length grad_mean = nrows X"
    by simp_all
  then have iv: "is_valid_of grad_mean variance =
           Inr (map (\<lambda>i. \<not> invalid_entry (grad_mean ! i) (variance ! i)) [0..<length grad_mean])"
    by (intro is_valid_of_same_length) simp
  show ?thesis
  proof (cases "nrows X = 1")
    case False
    with l assms(3,4) have "elementwise fp_sub response mean = Inl InvalidArgument"
      by (simp add: elementwise_def)
    then show ?thesis
      by (simp add: grad_neg_log_likelihood_and_fim_def m iv)
  next
    case True
    with l assms(3,4) show ?thesis
      by (simp add: grad_neg_log_likelihood_and_fim_def m iv elementwise_def mask_if_invalid_def
            sparse_or_dense_matvecmul_def)
  qed
qed

text \<open>
  C9 (as stated). Every call with a response whose length differs from the row count of
  the matrix fails. A response of length one is broadcast against the two samples: the
  fit runs one sweep and returns.
\<close>

theorem broadcast_response_counterexample:
  "length [Finite 1] \<noteq> nrows column_matrix
   \<and> length (x_start column_args) = ncols column_matrix
   \<and> fit_sparse column_matrix [Finite 1] gaussian_glm column_args None
       = Inr ([Finite 1], False, 1)"
proof -
  have g: "grad_neg_log_likelihood_and_fim_fn column_matrix [Finite 1] gaussian_glm [Finite 0]
     = Inr ([Finite (- 2)], column_matrix, [Finite 1, Finite 1])"
    by (simp add: column_matrix_def gaussian_glm_def adapter_eval_simps eval_simps)
  have s: "minimize_sparse_one_step
     \<lparr>x_start = [Finite 0], tolerance = Finite (1 / 100),
      l1_regularizer = Finite 0, l2_regularizer = None, learning_rate = None,
      gradient_unregularized_loss = [Finite (- 2)],
      hessian_unregularized_loss_outer = column_matrix,
      hessian_unregularized_loss_middle = [Finite 1, Finite 1],
      maximum_full_sweeps = 1\<rparr> (Some [Finite 0])
   = Inr (([Finite 1], False, Finite 1), [Finite 1])"
    by (simp add: minimize_sparse_one_step_def while_loop.simps column_matrix_def eval_simps
          numeral_eq_Suc)
  show ?thesis
    by (simp add: fit_sparse_def minimize_sparse_def outer_while_loop.simps outer_loop_cond_def
          outer_loop_body_def column_args_def g s)
       (simp add: column_matrix_def)
qed

text \<open>
  C9 (amended). The source validates no shapes itself; a mismatch is an error of the first
  tensor operation that meets it. In \<^verbatim>\<open>fit_sparse\<close> with \<open>maximum_iterations \<ge> 1\<close> and a
  model that returns vectors of the predictor's length, a coefficient vector whose length
  differs from the column count, or a response whose length is neither the row count nor
  one, makes the first evaluation of the gradient callback fail with \<open>InvalidArgument\<close>,
  before \<^verbatim>\<open>minimize_sparse_one_step\<close> is reached.
\<close>

theorem shape_mismatch:
  assumes "preserves_length model"
    and "maximum_iterations m = Some mx" and "1 \<le> mx"
    and "length (x_start m) \<noteq> ncols X \<or> (length response \<noteq> nrows X \<and> length response \<noteq> 1)"
  shows "grad_neg_log_likelihood_and_fim_fn X response model (x_start m) = Inl InvalidArgument
       \<and> fit_sparse X response model m v = Inl InvalidArgument"
proof -
  have g: "grad_neg_log_likelihood_and_fim_fn X response model (x_start m) = Inl InvalidArgument"
  proof (cases "length (x_start m) = ncols X")
    case False
    then show ?thesis
      by (simp add: grad_neg_log_likelihood_and_fim_fn_def sparse_or_dense_matvecmul_def)
  next
    case True
    then obtain eta where e: "sparse_or_dense_matvecmul X (x_start m) False = Inr eta"
      and le: "length eta = nrows X"
      by (simp add: sparse_or_dense_matvecmul_def)
    from True assms(4) have "length response \<noteq> nrows X" "length response \<noteq> 1" by simp_all
    from adapter_response_mismatch [OF assms(1) le this]
    show ?thesis by (simp add: grad_neg_log_likelihood_and_fim_fn_def e)
  qed
  from assms(2,3) have c: "outer_loop_cond m False 0 = Inr True"
    by (simp add: outer_loop_cond_def)
  have "outer_while_loop (grad_neg_log_likelihood_and_fim_fn X response model) m (x_start m)
          False 0 var = Inl InvalidArgument" for var
    by (simp add: outer_while_loop.simps[of _ m "x_start m" False 0 var] c outer_loop_body_def g)
  then have "fit_sparse X response model m v = Inl InvalidArgument"
    by (simp add: fit_sparse_def minimize_sparse_def)
  with g show ?thesis by simp
qed

theorem shape_mismatch_witness:
  "preserves_length gaussian_glm
   \<and> maximum_iterations scenario_args = Some 10 \<and> (1::int) \<le> 10
   \<and> length [Finite 1, Finite 1] \<noteq> nrows scenario_matrix \<and> length [Finite 1, Finite (1::real)] \<noteq> 1
   \<and> fit_sparse scenario_matrix [Finite 1, Finite 1] gaussian_glm scenario_args None
       = Inl InvalidArgument"
proof -
  have p: "preserves_length gaussian_glm"
    by (simp add: preserves_length_def gaussian_glm_def)
  have m: "maximum_iterations scenario_args = Some 10" by (simp add: scenario_args_def)
  have l: "length (x_start scenario_args) \<noteq> ncols scenario_matrix
     \<or> (length [Finite 1, Finite 1] \<noteq> nrows scenario_matrix \<and> length [Finite 1, Finite (1::real)] \<noteq> 1)"
    by (simp add: scenario_matrix_def)
  from shape_mismatch [OF p m _ l, of None] p m l show ?thesis
    by (simp add: scenario_matrix_def)
qed

section \<open>The running curvature product\<close>

lemma and_then_assoc: "and_then (and_then m f) g = and_then m (\<lambda>x. and_then (f x) g)"
  by (cases m) simp_all

lemma hessian_column_chain:
  assumes "length (hessian_unregularized_loss_middle a) = nrows (hessian_unregularized_loss_outer a)"
    and "0 \<le> coord" and "nat coord < ncols (hessian_unregularized_loss_outer a)"
  shows "and_then (sparse_or_dense_matmul_onehot (hessian_unregularized_loss_outer a) coord
                 (num_samples a)) (\<lambda>column.
     and_then (elementwise fp_mul (hessian_unregularized_loss_middle a) column) (\<lambda>weighted.
     and_then (sparse_or_dense_matvecmul (hessian_unregularized_loss_outer a) weighted True)
       (\<lambda>hessian_column.
     (case l2_regularizer a of
                 None \<Rightarrow> Inr hessian_column
               | Some l2 \<Rightarrow> elementwise fp_add hessian_column
                    (one_hot_like hessian_column coord (fp_mul (Finite 2) l2))))))
   = Inr (curvature_column a (nat coord))"
proof -
  let ?H = "hessian_unregularized_loss_outer a"
  let ?h = "hessian_unregularized_loss_middle a"
  let ?j = "nat coord"
  let ?N = "nrows ?H"
  let ?n = "ncols ?H"
  let ?w = "map (\<lambda>i. fp_mul (?h ! i) (entry ?H i ?j)) [0..<?N]"
  let ?u = "\<lambda>k. reduce_sum (map (\<lambda>i. fp_mul (entry ?H i k) (fp_mul (?h ! i) (entry ?H i ?j)))
                               [0..<?N])"
  have col: "sparse_or_dense_matmul_onehot ?H coord (num_samples a)
            = Inr (map (\<lambda>i. entry ?H i ?j) [0..<?N])"
    using assms(2,3) by (simp add: sparse_or_dense_matmul_onehot_def)
  have "map2 fp_mul ?h (map (\<lambda>i. entry ?H i ?j) [0..<?N]) = ?w"
    using assms(1) by (intro nth_equalityI) simp_all
  with assms(1) have w: "elementwise fp_mul ?h (map (\<lambda>i. entry ?H i ?j) [0..<?N]) = Inr ?w"
    by (simp add: elementwise_def)
  have "map (\<lambda>i. fp_mul (entry ?H i k) (?w ! i)) [0..<?N]
        = map (\<lambda>i. fp_mul (entry ?H i k) (fp_mul (?h ! i) (entry ?H i ?j))) [0..<?N]" for k
    by (rule map_cong [OF refl]) simp
  then have "map (\<lambda>k. reduce_sum (map (\<lambda>i. fp_mul (entry ?H i k) (?w ! i)) [0..<?N])) [0..<?n]
             = map ?u [0..<?n]"
    by (simp only:)
  then have mv: "sparse_or_dense_matvecmul ?H ?w True = Inr (map ?u [0..<?n])"
    by (simp add: sparse_or_dense_matvecmul_def)
  show ?thesis
  proof (cases "l2_regularizer a")
    case None
    then show ?thesis
      by (simp only: col w mv and_then_Inr option.case curvature_column_def Let_def)
  next
    case (Some l2)
    have "map2 fp_add (map ?u [0..<?n])
            (one_hot_like (map ?u [0..<?n]) coord (fp_mul (Finite 2) l2))
          = curvature_column a ?j"
      using assms(2)
      by (intro nth_equalityI)
         (auto simp: one_hot_like_def curvature_column_def Some Let_def)
    moreover have "elementwise fp_add (map ?u [0..<?n])
            (one_hot_like (map ?u [0..<?n]) coord (fp_mul (Finite 2) l2))
          = Inr (map2 fp_add (map ?u [0..<?n])
            (one_hot_like (map ?u [0..<?n]) coord (fp_mul (Finite 2) l2)))"
      by (rule elementwise_same_length) (simp add: one_hot_like_def)
    ultimately show ?thesis
      by (simp only: col w mv Some and_then_Inr option.case)
  qed
qed

lemma curvature_column_length [simp]:
  "length (curvature_column a j) = ncols (hessian_unregularized_loss_outer a)"
  by (simp add: curvature_column_def)

lemma do_update_shapes:
  assumes "ncols (hessian_unregularized_loss_outer a) = length (x_start a)"
    and "length (hessian_unregularized_loss_middle a) = nrows (hessian_unregularized_loss_outer a)"
    and "0 \<le> coord" and "nat coord < length (x_start a)"
    and "length (hess_matmul_x_update s) = length (x_start a)"
    and "length (x_update_var s) = length (x_start a)"
  shows "do_update a s coord delta =
     Inr (s\<lparr>x_update_diff_norm_sq := fp_add (x_update_diff_norm_sq s) (fp_square delta),
            x_update := (x_update_var s)[nat coord := fp_add (x_update_var s ! nat coord) delta],
            hess_matmul_x_update :=
              map2 fp_add (hess_matmul_x_update s)
                (map (fp_mul delta) (curvature_column a (nat coord))),
            x_update_var := (x_update_var s)[nat coord := fp_add (x_update_var s ! nat coord) delta]\<rparr>)"
proof -
  let ?chain = "and_then (sparse_or_dense_matmul_onehot (hessian_unregularized_loss_outer a) coord
                 (num_samples a)) (\<lambda>column.
     and_then (elementwise fp_mul (hessian_unregularized_loss_middle a) column) (\<lambda>weighted.
     and_then (sparse_or_dense_matvecmul (hessian_unregularized_loss_outer a) weighted True)
       (\<lambda>hessian_column.
     (case l2_regularizer a of
                 None \<Rightarrow> Inr hessian_column
               | Some l2 \<Rightarrow> elementwise fp_add hessian_column
                    (one_hot_like hessian_column coord (fp_mul (Finite 2) l2))))))"
  let ?rest = "\<lambda>hessian_column_with_l2.
     and_then (tensor_index (x_update_var s) coord) (\<lambda>var_elt.
     and_then (scatter_update (x_update_var s) coord (fp_add var_elt delta))
       (\<lambda>changed_x_update_var.
     and_then (elementwise fp_add (hess_matmul_x_update s)
                 (map (fp_mul delta) hessian_column_with_l2)) (\<lambda>hess_matmul_x_update'.
       Inr (s\<lparr>x_update_diff_norm_sq := fp_add (x_update_diff_norm_sq s) (fp_square delta),
              x_update := changed_x_update_var,
              hess_matmul_x_update := hess_matmul_x_update',
              x_update_var := changed_x_update_var\<rparr>))))"
  have "do_update a s coord delta = and_then ?chain ?rest"
    by (simp only: do_update_def and_then_assoc)
  also have "?chain = Inr (curvature_column a (nat coord))"
    using assms(1,2,3,4) by (intro hessian_column_chain) simp_all
  finally show ?thesis
    using assms(1,3,4,5,6)
    by (simp add: tensor_index_def scatter_update_def elementwise_same_length nat_less_iff)
qed

lemma loop_body_increment:
  assumes nc: "ncols (hessian_unregularized_loss_outer a) = length (x_start a)"
    and nr: "length (hessian_unregularized_loss_middle a) = nrows (hessian_unregularized_loss_outer a)"
    and inv: "shapes_agree a s"
    and b: "loop_body a g s = Inr s'"
  shows "shapes_agree a s'
       \<and> (\<exists>delta. coord_delta a g s (iter s mod dims a) = Inr delta
            \<and> (if fp_eq delta (Finite 0)
                then x_update s' = x_update s
                     \<and> hess_matmul_x_update s' = hess_matmul_x_update s
                else x_update s' =
                       (x_update s)[nat (iter s mod dims a) :=
                          fp_add (x_update s ! nat (iter s mod dims a)) delta]
                     \<and> hess_matmul_x_update s' =
                         map2 fp_add (hess_matmul_x_update s)
                           (map (fp_mul delta)
                              (curvature_column a (nat (iter s mod dims a))))))"
proof -
  let ?n = "length (x_start a)"
  let ?coord = "iter s mod dims a"
  let ?j = "nat ?coord"
  let ?s1 = "s\<lparr>x_update_diff_norm_sq :=
                  (if ?coord = 0 then Finite 0 else x_update_diff_norm_sq s)\<rparr>"
  from inv have lx: "length (x_update s) = ?n" and lh: "length (hess_matmul_x_update s) = ?n"
    and var: "x_update_var s = x_update s"
    by (simp_all add: shapes_agree_def)
  from b have d0: "dims a \<noteq> 0"
    by (auto simp: loop_body_def and_then_eq_Inr floormod_eq_Inr)
  then have dpos: "0 < dims a" by (simp add: dims_def)
  then have c0: "0 \<le> ?coord" and c1: "?j < ?n"
    by (simp_all add: dims_def nat_less_iff)
  from b d0 obtain delta s2 where
    cd: "coord_delta a g s ?coord = Inr delta"
    and r: "(if fp_eq delta (Finite 0) then Inr ?s1 else do_update a ?s1 ?coord delta) = Inr s2"
    and s'eq: "s' = s2\<lparr>iter := iter s + 1\<rparr>"
    by (auto simp: loop_body_def and_then_eq_Inr floormod_eq_Inr Let_def)
  show ?thesis
  proof (cases "fp_eq delta (Finite 0)")
    case True
    with r s'eq have e: "x_update s' = x_update s"
      "hess_matmul_x_update s' = hess_matmul_x_update s" "x_update_var s' = x_update_var s"
      by auto
    with inv have "shapes_agree a s'" by (simp add: shapes_agree_def)
    with cd True e show ?thesis by auto
  next
    case False
    have "do_update a ?s1 ?coord delta =
       Inr (?s1\<lparr>x_update_diff_norm_sq := fp_add (x_update_diff_norm_sq ?s1) (fp_square delta),
            x_update := (x_update_var ?s1)[?j := fp_add (x_update_var ?s1 ! ?j) delta],
            hess_matmul_x_update :=
              map2 fp_add (hess_matmul_x_update ?s1)
                (map (fp_mul delta) (curvature_column a ?j)),
            x_update_var := (x_update_var ?s1)[?j := fp_add (x_update_var ?s1 ! ?j) delta]\<rparr>)"
      using lh lx var c0 c1 by (intro do_update_shapes [OF nc nr]) simp_all
    with False r s'eq have
      x': "x_update s' = (x_update s)[?j := fp_add (x_update s ! ?j) delta]"
      and v': "x_update_var s' = x_update s'"
      and h': "hess_matmul_x_update s' = map2 fp_add (hess_matmul_x_update s)
                (map (fp_mul delta) (curvature_column a ?j))"
      using var by auto
    from x' v' h' lx lh nc have "shapes_agree a s'"
      by (simp add: shapes_agree_def)
    with cd False x' h' show ?thesis by auto
  qed
qed

lemma loop_states_step:
  "i + 1 < length (loop_states a g s) \<Longrightarrow>
     loop_body a g (loop_states a g s ! i) = Inr (loop_states a g s ! (i + 1))"
proof (induction a g s arbitrary: i rule: loop_states.induct)
  case (1 a g s)
  from "1.prems" obtain s' where c: "loop_cond a s = Inr True" and b: "loop_body a g s = Inr s'"
    by (auto simp: loop_states.simps[of a g s] split: sum.splits if_splits)
  then have e: "loop_states a g s = s # loop_states a g s'"
    by (simp add: loop_states.simps[of a g s])
  show ?case
  proof (cases i)
    case 0
    with e b show ?thesis by (simp add: loop_states.simps[of a g s'])
  next
    case (Suc j)
    with "1.prems" e have "j + 1 < length (loop_states a g s')" by simp
    from "1.IH"[OF c _ b this] have "loop_body a g (loop_states a g s' ! j)
        = Inr (loop_states a g s' ! (j + 1))" by simp
    with e Suc show ?thesis by simp
  qed
qed

lemma infinite_feature_grad:
  "grad_loss_with_l2_of infinite_feature_args = Inr [Finite (- 1), Finite 0]"
  by (simp add: infinite_feature_args_def eval_simps)

lemma infinite_feature_initial:
  "initial_loop_vars (replicate (nat (dims infinite_feature_args)) (Finite 0))
     = \<lparr>iter = 0, x_update_diff_norm_sq = Finite 0, x_update = [Finite 0, Finite 0],
        hess_matmul_x_update = [Finite 0, Finite 0], x_update_var = [Finite 0, Finite 0]\<rparr>"
  by (simp add: infinite_feature_args_def eval_simps)

lemma infinite_feature_cond_0:
  "loop_cond infinite_feature_args
     \<lparr>iter = 0, x_update_diff_norm_sq = Finite 0, x_update = [Finite 0, Finite 0],
      hess_matmul_x_update = [Finite 0, Finite 0], x_update_var = [Finite 0, Finite 0]\<rparr>
     = Inr True"
  by (simp add: infinite_feature_args_def eval_simps)

lemma infinite_feature_body_0:
  "loop_body infinite_feature_args [Finite (- 1), Finite 0]
     \<lparr>iter = 0, x_update_diff_norm_sq = Finite 0, x_update = [Finite 0, Finite 0],
      hess_matmul_x_update = [Finite 0, Finite 0], x_update_var = [Finite 0, Finite 0]\<rparr>
     = Inr \<lparr>iter = 1, x_update_diff_norm_sq = Finite 1, x_update = [Finite 1, Finite 0],
            hess_matmul_x_update = [Finite 1, PosInf], x_update_var = [Finite 1, Finite 0]\<rparr>"
  by (simp add: infinite_feature_args_def infinite_feature_outer_def eval_simps)

lemma infinite_feature_state_1:
  "one_step_states infinite_feature_args None ! 1
     = \<lparr>iter = 1, x_update_diff_norm_sq = Finite 1, x_update = [Finite 1, Finite 0],
        hess_matmul_x_update = [Finite 1, PosInf], x_update_var = [Finite 1, Finite 0]\<rparr>"
  by (simp add: one_step_states_def infinite_feature_grad infinite_feature_initial
        loop_states.simps [of infinite_feature_args _ "\<lparr>iter = 0, x_update_diff_norm_sq = Finite 0,
           x_update = [Finite 0, Finite 0], hess_matmul_x_update = [Finite 0, Finite 0],
           x_update_var = [Finite 0, Finite 0]\<rparr>"]
        loop_states.simps [of infinite_feature_args _ "\<lparr>iter = 1, x_update_diff_norm_sq = Finite 1,
           x_update = [Finite 1, Finite 0], hess_matmul_x_update = [Finite 1, PosInf],
           x_update_var = [Finite 1, Finite 0]\<rparr>"]
        infinite_feature_cond_0 infinite_feature_body_0)

lemma infinite_feature_product:
  "curvature_times infinite_feature_args [Finite 1, Finite 0] = [NaN, NaN]"
  by (simp add: curvature_times_def curvature_column_def infinite_feature_args_def
        infinite_feature_outer_def reduce_sum_def inf_times_def upt_rec numeral_2_eq_2)

text \<open>
  C3 (as stated). At every step \<open>hess_matmul_x_update\<close> equals
  \<open>(H_outer\<^sup>T \<sqdot> diag(h_mid) \<sqdot> H_outer + 2 * l2 * I) \<sqdot> x_update\<close>. With the infinite feature,
  after the first coordinate update \<open>x_update = (1, 0)\<close> and the running product is
  \<open>(1, +\<infinity>)\<close>, the first column of the matrix, while the product of the matrix with
  \<open>x_update\<close> is \<open>(NaN, NaN)\<close>: its second column is infinite and is multiplied by 0.
\<close>

theorem running_product_infinite_feature_counterexample:
  "x_update (one_step_states infinite_feature_args None ! 1) = [Finite 1, Finite 0]
   \<and> hess_matmul_x_update (one_step_states infinite_feature_args None ! 1) = [Finite 1, PosInf]
   \<and> curvature_times infinite_feature_args
        (x_update (one_step_states infinite_feature_args None ! 1)) = [NaN, NaN]
   \<and> hess_matmul_x_update (one_step_states infinite_feature_args None ! 1)
       \<noteq> curvature_times infinite_feature_args
            (x_update (one_step_states infinite_feature_args None ! 1))"
  unfolding infinite_feature_state_1 by (simp add: infinite_feature_product)

lemma example_curvature_column_1: "curvature_column example_args 1 = [Finite 0, Finite 1]"
  by (simp add: curvature_column_def example_args_def example_outer_def reduce_sum_def upt_rec
        numeral_2_eq_2)

lemma example_coord_delta_1:
  "coord_delta example_args [Finite 0, Finite (- 1)] (example_state 1 0 0) 1 = Inr (Finite 1)"
  by (simp add: example_args_def example_outer_def example_state_def eval_simps)

text \<open>
  C3 (amended). For arguments of the documented shapes (\<open>H_outer\<close> has \<open>n\<close> columns,
  \<open>h_mid\<close> has one entry per row of \<open>H_outer\<close>, the variable has \<open>n\<close> entries), every
  coordinate iteration of a run computes a \<open>delta\<close> for its coordinate \<open>j = iter mod n\<close>;
  when \<open>delta\<close> is 0 it leaves \<open>x_update\<close> and \<open>hess_matmul_x_update\<close> as they are, and
  otherwise it adds \<open>delta\<close> to entry \<open>j\<close> of \<open>x_update\<close> and adds to
  \<open>hess_matmul_x_update\<close>, entry by entry, \<open>delta\<close> times column \<open>j\<close> of
  \<open>H_outer\<^sup>T \<sqdot> diag(h_mid) \<sqdot> H_outer\<close>, that column taken with \<open>2 * l2_regularizer\<close> added
  on entry \<open>j\<close> when L2 regularization is enabled.
\<close>

theorem running_product_increment:
  assumes "ncols (hessian_unregularized_loss_outer a) = length (x_start a)"
    and "length (hessian_unregularized_loss_middle a) = nrows (hessian_unregularized_loss_outer a)"
    and "case v of None \<Rightarrow> True | Some w \<Rightarrow> length w = length (x_start a)"
    and "grad_loss_with_l2_of a = Inr g"
    and "i + 1 < length (one_step_states a v)"
  shows "\<exists>delta.
           coord_delta a g (one_step_states a v ! i)
             (iter (one_step_states a v ! i) mod dims a) = Inr delta
           \<and> (if fp_eq delta (Finite 0)
               then x_update (one_step_states a v ! (i + 1)) = x_update (one_step_states a v ! i)
                    \<and> hess_matmul_x_update (one_step_states a v ! (i + 1))
                        = hess_matmul_x_update (one_step_states a v ! i)
               else x_update (one_step_states a v ! (i + 1)) =
                      (x_update (one_step_states a v ! i))
                        [nat (iter (one_step_states a v ! i) mod dims a) :=
                           fp_add (x_update (one_step_states a v ! i)
                                     ! nat (iter (one_step_states a v ! i) mod dims a)) delta]
                    \<and> hess_matmul_x_update (one_step_states a v ! (i + 1)) =
                        map2 fp_add (hess_matmul_x_update (one_step_states a v ! i))
                          (map (fp_mul delta)
                             (curvature_column a
                                (nat (iter (one_step_states a v ! i) mod dims a)))))"
proof -
  let ?var = "case v of None \<Rightarrow> replicate (nat (dims a)) (Finite 0) | Some w \<Rightarrow> w"
  let ?init = "initial_loop_vars ?var"
  let ?ss = "loop_states a g ?init"
  have ss: "one_step_states a v = ?ss"
    using assms(4) by (simp add: one_step_states_def)
  from assms(3) have lv: "length ?var = length (x_start a)"
    by (simp add: dims_def split: option.splits)
  have all: "\<forall>t \<in> set ?ss. shapes_agree a t"
  proof (rule loop_states_rule)
    show "shapes_agree a ?init"
      using lv by (simp add: shapes_agree_def initial_loop_vars_def)
    show "\<forall>u u'. shapes_agree a u \<and> loop_cond a u = Inr True \<and> loop_body a g u = Inr u'
            \<longrightarrow> shapes_agree a u'"
      using loop_body_increment [OF assms(1,2)] by blast
  qed
  from assms(5) have p: "i + 1 < length ?ss" by (simp add: ss)
  then have "shapes_agree a (?ss ! i)" using all by simp
  moreover from loop_states_step [OF p]
  have "loop_body a g (?ss ! i) = Inr (?ss ! (i + 1))" .
  ultimately show ?thesis
    unfolding ss using loop_body_increment [OF assms(1,2)] by blast
qed

theorem running_product_increment_witness:
  "ncols (hessian_unregularized_loss_outer example_args) = length (x_start example_args)
   \<and> length (hessian_unregularized_loss_middle example_args)
       = nrows (hessian_unregularized_loss_outer example_args)
   \<and> grad_loss_with_l2_of example_args = Inr [Finite 0, Finite (- 1)]
   \<and> 1 + 1 < length (one_step_states example_args None)
   \<and> coord_delta example_args [Finite 0, Finite (- 1)] (one_step_states example_args None ! 1)
        (iter (one_step_states example_args None ! 1) mod dims example_args) = Inr (Finite 1)
   \<and> \<not> fp_eq (Finite 1) (Finite 0)
   \<and> x_update (one_step_states example_args None ! (1 + 1))
       = (x_update (one_step_states example_args None ! 1))
           [1 := fp_add (x_update (one_step_states example_args None ! 1) ! 1) (Finite 1)]
   \<and> hess_matmul_x_update (one_step_states example_args None ! (1 + 1))
       = map2 fp_add (hess_matmul_x_update (one_step_states example_args None ! 1))
           (map (fp_mul (Finite 1)) (curvature_column example_args 1))"
proof -
  have nc: "ncols (hessian_unregularized_loss_outer example_args) = length (x_start example_args)"
    by (simp add: example_args_def example_outer_def)
  have nr: "length (hessian_unregularized_loss_middle example_args)
              = nrows (hessian_unregularized_loss_outer example_args)"
    by (simp add: example_args_def example_outer_def)
  have v: "case None :: fp list option of None \<Rightarrow> True
           | Some w \<Rightarrow> length w = length (x_start example_args)"
    by simp
  have l: "1 + 1 < length (one_step_states example_args None)"
    by (simp add: example_states)
  have j: "iter (one_step_states example_args None ! 1) mod dims example_args = 1"
    unfolding example_states by (simp add: example_state_def example_args_def dims_def)
  have d: "coord_delta example_args [Finite 0, Finite (- 1)]
             (one_step_states example_args None ! 1)
             (iter (one_step_states example_args None ! 1) mod dims example_args)
           = Inr (Finite 1)"
    unfolding j using example_coord_delta_1 by (simp add: example_states)
  have n: "\<not> fp_eq (Finite 1) (Finite 0)" by simp
  from running_product_increment [OF nc nr v example_grad l] d n j
  have "x_update (one_step_states example_args None ! (1 + 1))
       = (x_update (one_step_states example_args None ! 1))
           [1 := fp_add (x_update (one_step_states example_args None ! 1) ! 1) (Finite 1)]
   \<and> hess_matmul_x_update (one_step_states example_args None ! (1 + 1))
       = map2 fp_add (hess_matmul_x_update (one_step_states example_args None ! 1))
           (map (fp_mul (Finite 1)) (curvature_column example_args 1))"
    by auto
  with nc nr example_grad l d n show ?thesis by (intro conjI) simp_all
qed

end
